theory Spec2Isabelle
  imports Main
begin

section \<open>Social Insecurity: the route handlers of \<open>social_insecurity/routes.py\<close>\<close>

text \<open>
  Every handler is a function from the world before the request (the tables of the data
  store, the files of the uploads directory, the session of the requesting client and
  the log of the notices flashed so far) and the request to the world after it and the
  response. An exception that leaves a handler unhandled is the response \<open>ServerError\<close>;
  \<open>abort(403)\<close> is the response \<open>Abort 403\<close>. A rendered page is returned as data: the
  templates are not part of \<open>routes.py\<close>.
\<close>

subsection \<open>Strings\<close>

text \<open>
  A string is the list of the bytes of its UTF-8 encoding: a byte below 128 is an ASCII
  character, every other byte is part of the encoding of a code point beyond ASCII, and
  no ASCII byte occurs inside such an encoding.
\<close>

definition is_ascii :: "char \<Rightarrow> bool" where
  "is_ascii c = (\<not> digit7 c)"

text \<open>The lowercase of an ASCII character.\<close>

definition lower_char :: "char \<Rightarrow> char" where
  "lower_char c =
     (case map_of (zip ''ABCDEFGHIJKLMNOPQRSTUVWXYZ'' ''abcdefghijklmnopqrstuvwxyz'') c of
        None \<Rightarrow> c | Some l \<Rightarrow> l)"

text \<open>
  \<open>str.lower()\<close> goes through the string and replaces every character by its lowercase.
  An ASCII character has the lowercase of the table above, whatever surrounds it. What
  replaces a byte beyond ASCII is given by the case mappings of Unicode, \<open>f\<close> here, from
  the bytes before it, the byte and the bytes after it: the mappings may depend on the
  context (the final sigma) and may yield ASCII letters (the Kelvin sign becomes \<open>k\<close>).
\<close>

fun lower_from :: "(string \<Rightarrow> char \<Rightarrow> string \<Rightarrow> string) \<Rightarrow> string \<Rightarrow> string \<Rightarrow> string" where
  "lower_from f before [] = []"
| "lower_from f before (c # rest) =
     (if is_ascii c then [lower_char c] else f before c rest) @ lower_from f (before @ [c]) rest"

text \<open>\<open>s.endswith(suf)\<close>, and \<open>s.endswith((suf1, suf2, ...))\<close> for a tuple of suffixes.\<close>

definition endswith :: "string \<Rightarrow> string \<Rightarrow> bool" where
  "endswith s suf = (length suf \<le> length s \<and> drop (length s - length suf) s = suf)"

definition endswith_any :: "string \<Rightarrow> string list \<Rightarrow> bool" where
  "endswith_any s sufs = list_ex (endswith s) sufs"

text \<open>\<open>s.rsplit(".", 1)[-1]\<close>: what follows the last dot of \<open>s\<close> (all of \<open>s\<close> without a dot).\<close>

definition rsplit_last :: "string \<Rightarrow> string" where
  "rsplit_last s = rev (takeWhile (\<lambda>c. c \<noteq> CHR ''.'') (rev s))"

text \<open>Line 299: \<open>lower.rsplit(".", 1)[-1] if "." in lower else ""\<close>.\<close>

definition serve_ext :: "string \<Rightarrow> string" where
  "serve_ext lower_name = (if CHR ''.'' \<in> set lower_name then rsplit_last lower_name else [])"

subsection \<open>Rows, session, world\<close>

text \<open>
  The six profile columns of a user are \<open>None\<close> while they hold the default of the table
  declaration, which is not part of \<open>routes.py\<close>.
\<close>

record user =
  user_id :: int
  username :: string
  first_name :: string
  last_name :: string
  password :: string
  education :: "string option"
  employment :: "string option"
  music :: "string option"
  movie :: "string option"
  nationality :: "string option"
  birthday :: "string option"

record post =
  post_id :: int
  post_u_id :: int
  content :: string
  image :: "string option"
  post_creation_time :: nat

record comment =
  comment_id :: int
  p_id :: int
  comment_u_id :: int
  comment_text :: string
  comment_creation_time :: nat

text \<open>A row of \<open>Friends\<close> is the pair \<open>(u_id, f_id)\<close>.\<close>

type_synonym friend_edge = "int \<times> int"

text \<open>
  The session dictionary, typed by key: \<open>s_user_id\<close> is the value under \<open>"user_id"\<close>,
  \<open>s_username\<close> the value under \<open>"username"\<close>, \<open>s_flashes\<close> the value under
  \<open>"_flashes"\<close>, where \<open>flash\<close> of Flask keeps the pairs of category and message until
  a page shows them, and \<open>s_other\<close> holds every other key. \<open>None\<close> means that the key is
  absent.
\<close>

record session =
  s_user_id :: "int option"
  s_username :: "string option"
  s_flashes :: "(string \<times> string) list option"
  s_other :: "string \<rightharpoonup> string"

text \<open>\<open>session.clear()\<close> leaves no key.\<close>

definition session_clear :: session where
  "session_clear =
     \<lparr>s_user_id = None, s_username = None, s_flashes = None, s_other = Map.empty\<rparr>"

record world =
  Users :: "user list"
  Posts :: "post list"
  Comments :: "comment list"
  Friends :: "friend_edge list"
  uploads_dir :: "string \<rightharpoonup> string"
  session :: session
  flashed :: "(string \<times> string) list"

text \<open>
  \<open>flashed\<close> is the log of the calls of \<open>flash\<close>, each with its message and its category,
  in the order of the calls.
\<close>

subsection \<open>Requests and responses\<close>

datatype http_method = GET | POST | HEAD

record login_form =
  l_valid :: bool
  l_submit :: bool
  l_username :: string
  l_password :: string

record register_form =
  r_valid :: bool
  r_submit :: bool
  r_username :: string
  r_first_name :: string
  r_last_name :: string
  r_password :: string

record index_form =
  login :: login_form
  register :: register_form

text \<open>\<open>pf_image\<close> is the uploaded file: its submitted name and its contents.\<close>

record post_form =
  pf_valid :: bool
  pf_content :: string
  pf_image :: "(string \<times> string) option"

record comments_form =
  cf_valid :: bool
  cf_comment :: string

record friends_form =
  ff_valid :: bool
  ff_username :: string

record profile_form =
  prf_valid :: bool
  prf_education :: string
  prf_employment :: string
  prf_music :: string
  prf_movie :: string
  prf_nationality :: string
  prf_birthday :: string

text \<open>
  A request carries the method, the arguments of the URL, the submitted forms, and what
  the handler reads from its environment: the time (\<open>CURRENT_TIMESTAMP\<close>) and the result
  of \<open>secrets.token_hex(8)\<close>.
\<close>

record request =
  meth :: http_method
  url_username :: string
  url_post_id :: int
  index_data :: index_form
  post_data :: post_form
  comments_data :: comments_form
  friends_data :: friends_form
  profile_data :: profile_form
  now :: nat
  token_hex :: string

text \<open>
  Modelled from the spec: the forms and their validators are missing; whether they accept
  the submitted fields is the \<open>valid\<close> flag of each form. \<open>validate_on_submit()\<close> holds
  when the request submits a form (of the methods the routes accept, \<open>POST\<close> only) and
  the validators accept it. The specification has no CSRF protection, so no form keeps
  a token in the session: building and validating a form leaves the session as it is.
\<close>

definition validate_on_submit :: "http_method \<Rightarrow> bool \<Rightarrow> bool" where
  "validate_on_submit m valid = (m = POST \<and> valid)"

datatype url = UIndex | UStream string | UComments string int | UFriends string | UProfile string

datatype exn = KeyError | TypeError | BuildError | IntegrityError

datatype page =
    IndexPage index_form
  | StreamPage "string option" post_form "(post \<times> user \<times> nat) list"
  | CommentsPage "string option" comments_form "(post \<times> user) option" "(comment \<times> user) list"
  | FriendsPage "string option" "(friend_edge \<times> user) list" friends_form
  | ProfilePage "string option" "user option" profile_form

datatype response =
    Redirect url
  | Render page
  | Abort nat
  | SendFile string
  | ServerError exn

text \<open>
  \<open>url_for\<close> of an endpoint with a username: a value \<open>None\<close> cannot be built into the URL
  and raises.
\<close>

definition url_for_user :: "(string \<Rightarrow> url) \<Rightarrow> string option \<Rightarrow> exn + url" where
  "url_for_user ep v = (case v of None \<Rightarrow> Inl BuildError | Some name \<Rightarrow> Inr (ep name))"

definition redirect :: "exn + url \<Rightarrow> response" where
  "redirect target = (case target of Inl e \<Rightarrow> ServerError e | Inr u \<Rightarrow> Redirect u)"

text \<open>\<open>session.get("_flashes", [])\<close>\<close>

definition session_flashes :: "session \<Rightarrow> (string \<times> string) list" where
  "session_flashes s = (case s_flashes s of None \<Rightarrow> [] | Some notices \<Rightarrow> notices)"

text \<open>
  \<open>flash(message, category)\<close> of Flask appends the pair of category and message to the
  list under the session key \<open>"_flashes"\<close>. The call is also entered into the log
  \<open>flashed\<close> of the world, which no handler reads.
\<close>

definition flash :: "string \<Rightarrow> string \<Rightarrow> world \<Rightarrow> world" where
  "flash message category w =
     w\<lparr>flashed := flashed w @ [(message, category)],
       session := (session w)\<lparr>s_flashes :=
                    Some (session_flashes (session w) @ [(category, message)])\<rparr>\<rparr>"

subsection \<open>Configuration and environment\<close>

text \<open>
  What the handlers use and \<open>routes.py\<close> does not define is a parameter:
  \<^item> \<open>ALLOWED_EXTENSIONS\<close>: the configuration entry, \<open>None\<close> when it is not configured;
  \<^item> \<open>secure_filename\<close>: the sanitizer of werkzeug;
  \<^item> \<open>unicode_lower\<close>: the case mappings of Unicode that \<open>str.lower()\<close> applies to what
    is not ASCII, see \<open>lower_from\<close>;
  \<^item> \<open>shows_notices\<close>: whether the template of a page shows the flashed notices.
\<close>

record config =
  ALLOWED_EXTENSIONS :: "string set option"
  secure_filename :: "string \<Rightarrow> string"
  unicode_lower :: "string \<Rightarrow> char \<Rightarrow> string \<Rightarrow> string"
  shows_notices :: "page \<Rightarrow> bool"

text \<open>\<open>app.config.get("ALLOWED_EXTENSIONS", set())\<close>\<close>

definition allowed :: "config \<Rightarrow> string set" where
  "allowed cfg = (case ALLOWED_EXTENSIONS cfg of None \<Rightarrow> {} | Some exts \<Rightarrow> exts)"

text \<open>\<open>s.lower()\<close>\<close>

definition lower :: "config \<Rightarrow> string \<Rightarrow> string" where
  "lower cfg s = lower_from (unicode_lower cfg) [] s"


text \<open>Line 106: \<open>raw.rsplit(".", 1)[-1].lower() if "." in raw else ""\<close>.\<close>

definition upload_ext :: "config \<Rightarrow> string \<Rightarrow> string" where
  "upload_ext cfg raw = (if CHR ''.'' \<in> set raw then lower cfg (rsplit_last raw) else [])"

text \<open>
  Modelled from the spec: the templates are missing. \<open>render_template\<close> answers with the
  page. A template that shows the notices calls \<open>get_flashed_messages\<close> of Flask, which
  removes the key \<open>"_flashes"\<close> from the session; whether the template of a page does
  is the parameter \<open>shows_notices\<close>.
\<close>

definition render_template :: "config \<Rightarrow> world \<Rightarrow> page \<Rightarrow> world \<times> response" where
  "render_template cfg w page =
     (if shows_notices cfg page then w\<lparr>session := (session w)\<lparr>s_flashes := None\<rparr>\<rparr> else w,
      Render page)"

subsection \<open>The data store gateway\<close>

text \<open>
  Modelled from the spec: the gateway \<open>sqlite.query\<close> is not part of \<open>routes.py\<close>; it
  executes a parameterized statement and returns the rows. Each function below is the
  meaning of one SQL statement of the handlers, on tables that are lists of rows in
  insertion order. A query with \<open>one=True\<close> gives the first row of the result, or
  \<open>None\<close>.
\<close>

text \<open>The id of a new row of a table with the given ids.\<close>

definition next_id :: "int list \<Rightarrow> int" where
  "next_id ids = (if ids = [] then 1 else Max (set ids) + 1)"

text \<open>\<open>SELECT * FROM Users WHERE username = ?\<close>, \<open>one=True\<close>\<close>

definition select_user_by_username :: "world \<Rightarrow> string \<Rightarrow> user option" where
  "select_user_by_username w name = List.find (\<lambda>u. username u = name) (Users w)"

text \<open>\<open>SELECT * FROM Users WHERE id = ?\<close>, \<open>one=True\<close>\<close>

definition select_user_by_id :: "world \<Rightarrow> int \<Rightarrow> user option" where
  "select_user_by_id w i = List.find (\<lambda>u. user_id u = i) (Users w)"

text \<open>
  Modelled from the spec: the declaration of the table \<open>Users\<close> is missing. In the data
  model of the specification the username of a user is unique, so the table rejects a
  username that a row already has: the statement raises and inserts nothing. The
  statement is
  \<open>INSERT INTO Users (username, first_name, last_name, password) VALUES (?, ?, ?, ?)\<close>.
\<close>

definition insert_user :: "world \<Rightarrow> string \<Rightarrow> string \<Rightarrow> string \<Rightarrow> string \<Rightarrow> exn + world" where
  "insert_user w name fname lname pw =
     (if list_ex (\<lambda>u. username u = name) (Users w)
      then Inl IntegrityError
      else Inr (w\<lparr>Users := Users w @
             [\<lparr>user_id = next_id (map user_id (Users w)), username = name,
               first_name = fname, last_name = lname, password = pw,
               education = None, employment = None, music = None, movie = None,
               nationality = None, birthday = None\<rparr>]\<rparr>))"

text \<open>
  \<open>INSERT INTO Posts (u_id, content, image, creation_time)
  VALUES (?, ?, ?, CURRENT_TIMESTAMP)\<close>
\<close>

definition insert_post :: "world \<Rightarrow> int \<Rightarrow> string \<Rightarrow> string option \<Rightarrow> nat \<Rightarrow> world" where
  "insert_post w uid text img t =
     w\<lparr>Posts := Posts w @
         [\<lparr>post_id = next_id (map post_id (Posts w)), post_u_id = uid, content = text,
           image = img, post_creation_time = t\<rparr>]\<rparr>"

text \<open>
  \<open>INSERT INTO Comments (p_id, u_id, comment, creation_time)
  VALUES (?, ?, ?, CURRENT_TIMESTAMP)\<close>
\<close>

definition insert_comment :: "world \<Rightarrow> int \<Rightarrow> int \<Rightarrow> string \<Rightarrow> nat \<Rightarrow> world" where
  "insert_comment w pid uid text t =
     w\<lparr>Comments := Comments w @
         [\<lparr>comment_id = next_id (map comment_id (Comments w)), p_id = pid,
           comment_u_id = uid, comment_text = text, comment_creation_time = t\<rparr>]\<rparr>"

text \<open>\<open>INSERT INTO Friends (u_id, f_id) VALUES (?, ?)\<close>\<close>

definition insert_friend :: "world \<Rightarrow> int \<Rightarrow> int \<Rightarrow> world" where
  "insert_friend w uid fid = w\<lparr>Friends := Friends w @ [(uid, fid)]\<rparr>"

text \<open>\<open>SELECT f_id FROM Friends WHERE u_id = ?\<close>\<close>

definition select_friend_ids :: "world \<Rightarrow> int \<Rightarrow> int list" where
  "select_friend_ids w uid = map snd (filter (\<lambda>e. fst e = uid) (Friends w))"

text \<open>
  \<open>SELECT * FROM Friends AS f JOIN Users AS u ON f.f_id = u.id
  WHERE f.u_id = ? AND f.f_id != ?\<close>, both parameters the id of the current user.
\<close>

definition select_friends :: "world \<Rightarrow> int \<Rightarrow> (friend_edge \<times> user) list" where
  "select_friends w uid =
     [(e, u). e \<leftarrow> Friends w, u \<leftarrow> Users w, snd e = user_id u \<and> fst e = uid \<and> snd e \<noteq> uid]"

text \<open>
  The query \<open>get_posts\<close> of the stream, all three parameters the id of the current user:
  the posts of the users with an edge to the current user, of the users the current user
  has an edge to, and of the current user, each with its author and the number of its
  comments, ordered by \<open>creation_time DESC\<close>.
\<close>

definition visible_to :: "world \<Rightarrow> int \<Rightarrow> int \<Rightarrow> bool" where
  "visible_to w uid author =
     (author \<in> set (map fst (filter (\<lambda>e. snd e = uid) (Friends w)))
      \<or> author \<in> set (map snd (filter (\<lambda>e. fst e = uid) (Friends w)))
      \<or> author = uid)"

definition get_posts :: "world \<Rightarrow> int \<Rightarrow> (post \<times> user \<times> nat) list" where
  "get_posts w uid =
     rev (sort_key (\<lambda>r. post_creation_time (fst r))
       [(p, u, length (filter (\<lambda>c. p_id c = post_id p) (Comments w))).
          p \<leftarrow> Posts w, u \<leftarrow> Users w, user_id u = post_u_id p \<and> visible_to w uid (post_u_id p)])"

text \<open>
  \<open>SELECT * FROM Posts AS p JOIN Users AS u ON p.u_id = u.id WHERE p.id = ?\<close>, \<open>one=True\<close>
\<close>

definition select_post :: "world \<Rightarrow> int \<Rightarrow> (post \<times> user) option" where
  "select_post w pid =
     (case [(p, u). p \<leftarrow> Posts w, u \<leftarrow> Users w, post_u_id p = user_id u \<and> post_id p = pid] of
        [] \<Rightarrow> None | row # _ \<Rightarrow> Some row)"

text \<open>
  \<open>SELECT DISTINCT * FROM Comments AS c JOIN Users AS u ON c.u_id = u.id
  WHERE c.p_id = ? ORDER BY c.creation_time DESC\<close>
\<close>

definition select_comments :: "world \<Rightarrow> int \<Rightarrow> (comment \<times> user) list" where
  "select_comments w pid =
     rev (sort_key (\<lambda>r. comment_creation_time (fst r))
       (remdups [(c, u). c \<leftarrow> Comments w, u \<leftarrow> Users w, comment_u_id c = user_id u \<and> p_id c = pid]))"

text \<open>
  \<open>UPDATE Users SET education = ?, employment = ?, music = ?, movie = ?, nationality = ?,
  birthday = ? WHERE id = ?\<close>
\<close>

definition update_profile :: "world \<Rightarrow> profile_form \<Rightarrow> int \<Rightarrow> world" where
  "update_profile w f uid =
     w\<lparr>Users := map (\<lambda>u. if user_id u = uid
          then u\<lparr>education := Some (prf_education f), employment := Some (prf_employment f),
                 music := Some (prf_music f), movie := Some (prf_movie f),
                 nationality := Some (prf_nationality f), birthday := Some (prf_birthday f)\<rparr>
          else u) (Users w)\<rparr>"

text \<open>\<open>fileobj.save(upload_dir / unique)\<close>\<close>

definition save_file :: "world \<Rightarrow> string \<Rightarrow> string \<Rightarrow> world" where
  "save_file w name data = w\<lparr>uploads_dir := (uploads_dir w)(name \<mapsto> data)\<rparr>"

text \<open>
  \<open>send_from_directory\<close> of Flask: the file of that name in the directory, and the
  response 404 when there is none.
\<close>

definition send_from_directory :: "world \<Rightarrow> string \<Rightarrow> response" where
  "send_from_directory w name =
     (case uploads_dir w name of None \<Rightarrow> Abort 404 | Some data \<Rightarrow> SendFile data)"

subsection \<open>The session guard\<close>

definition login_required ::
  "(world \<Rightarrow> 'a \<Rightarrow> world \<times> response) \<Rightarrow> world \<Rightarrow> 'a \<Rightarrow> world \<times> response" where
  "login_required view w args =
     (if s_user_id (session w) = None
      then (flash ''Please sign in.'' ''warning'' w, redirect (Inr UIndex))
      else view w args)"

subsection \<open>Index and logout\<close>

text \<open>Line 42 and line 59: which of the two forms of the index page was submitted.\<close>

definition login_submitted :: "request \<Rightarrow> bool" where
  "login_submitted req =
     (validate_on_submit (meth req) (l_valid (login (index_data req)))
      \<and> l_submit (login (index_data req)))"

definition register_submitted :: "request \<Rightarrow> bool" where
  "register_submitted req =
     (validate_on_submit (meth req) (r_valid (register (index_data req)))
      \<and> r_submit (register (index_data req)))"

definition index :: "config \<Rightarrow> world \<Rightarrow> request \<Rightarrow> world \<times> response" where
  "index cfg w req =
     (let login_form = login (index_data req); register_form = register (index_data req);
          page = IndexPage (index_data req)
      in
      if login_submitted req then
        (case select_user_by_username w (l_username login_form) of
           None \<Rightarrow>
             render_template cfg (flash ''Sorry, this user does not exist!'' ''warning'' w) page
         | Some user \<Rightarrow>
             if password user \<noteq> l_password login_form
             then render_template cfg (flash ''Sorry, wrong password!'' ''warning'' w) page
             else (w\<lparr>session := session_clear
                       \<lparr>s_user_id := Some (user_id user), s_username := Some (username user)\<rparr>\<rparr>,
                   redirect (url_for_user UStream (Some (username user)))))
      else if register_submitted req then
        (case insert_user w (r_username register_form) (r_first_name register_form)
                (r_last_name register_form) (r_password register_form) of
           Inl e \<Rightarrow> (w, ServerError e)
         | Inr w' \<Rightarrow> (flash ''User successfully created!'' ''success'' w', redirect (Inr UIndex)))
      else render_template cfg w page)"

definition logout :: "world \<Rightarrow> world \<times> response" where
  "logout w = (flash ''Logged out.'' ''info'' (w\<lparr>session := session_clear\<rparr>), redirect (Inr UIndex))"

subsection \<open>Stream\<close>

text \<open>
  The first lines of the four gated handlers: whether the username of the URL differs
  from \<open>session.get("username")\<close>, and the username the handler goes on with when it
  does not redirect.
\<close>

definition mismatch :: "world \<Rightarrow> request \<Rightarrow> bool" where
  "mismatch w req = (Some (url_username req) \<noteq> s_username (session w))"

definition effective_username :: "world \<Rightarrow> request \<Rightarrow> string option" where
  "effective_username w req =
     (if mismatch w req then s_username (session w) else Some (url_username req))"

text \<open>Lines 118 to 124: \<open>user["id"]\<close> raises when there is no row for the session's id.\<close>

definition stream_insert ::
  "world \<Rightarrow> request \<Rightarrow> user option \<Rightarrow> string option \<Rightarrow> string option \<Rightarrow> world \<times> response" where
  "stream_insert w req user uname filename =
     (case user of
        None \<Rightarrow> (w, ServerError TypeError)
      | Some u \<Rightarrow>
          (insert_post w (user_id u) (pf_content (post_data req)) filename (now req),
           redirect (url_for_user UStream uname)))"

definition stream_view :: "config \<Rightarrow> world \<Rightarrow> request \<Rightarrow> world \<times> response" where
  "stream_view cfg w req =
     (if mismatch w req \<and> meth req = GET
      then (w, redirect (url_for_user UStream (s_username (session w))))
      else
        let uname = effective_username w req; post_form = post_data req in
        case s_user_id (session w) of
          None \<Rightarrow> (w, ServerError KeyError)
        | Some sid \<Rightarrow>
            let user = select_user_by_id w sid in
            if validate_on_submit (meth req) (pf_valid post_form) then
              (case pf_image post_form of
                 None \<Rightarrow> stream_insert w req user uname None
               | Some (fname, data) \<Rightarrow>
                   if fname = [] then stream_insert w req user uname None
                   else
                     let raw = secure_filename cfg fname; ext = upload_ext cfg raw in
                     if ext \<notin> allowed cfg
                     then (flash ''File type not allowed'' ''warning'' w,
                           redirect (url_for_user UStream uname))
                     else
                       let unique = token_hex req @ ''_'' @ raw in
                       stream_insert (save_file w unique data) req user uname (Some unique))
            else
              (case user of
                 None \<Rightarrow> (w, ServerError TypeError)
               | Some u \<Rightarrow>
                   render_template cfg w (StreamPage uname post_form (get_posts w (user_id u)))))"

definition stream :: "config \<Rightarrow> world \<Rightarrow> request \<Rightarrow> world \<times> response" where
  "stream cfg = login_required (stream_view cfg)"

subsection \<open>Comments\<close>

definition comments_render ::
  "config \<Rightarrow> world \<Rightarrow> request \<Rightarrow> string option \<Rightarrow> world \<times> response" where
  "comments_render cfg w req uname =
     render_template cfg w
       (CommentsPage uname (comments_data req)
          (select_post w (url_post_id req)) (select_comments w (url_post_id req)))"

definition comments_view :: "config \<Rightarrow> world \<Rightarrow> request \<Rightarrow> world \<times> response" where
  "comments_view cfg w req =
     (if mismatch w req \<and> meth req = GET
      then (w, redirect (url_for_user (\<lambda>name. UComments name (url_post_id req))
                           (s_username (session w))))
      else
        let uname = effective_username w req; comments_form = comments_data req in
        case s_user_id (session w) of
          None \<Rightarrow> (w, ServerError KeyError)
        | Some sid \<Rightarrow>
            let user = select_user_by_id w sid in
            if validate_on_submit (meth req) (cf_valid comments_form) then
              (case user of
                 None \<Rightarrow> (w, ServerError TypeError)
               | Some u \<Rightarrow>
                   comments_render cfg
                     (insert_comment w (url_post_id req) (user_id u) (cf_comment comments_form)
                        (now req))
                     req uname)
            else comments_render cfg w req uname)"

definition comments :: "config \<Rightarrow> world \<Rightarrow> request \<Rightarrow> world \<times> response" where
  "comments cfg = login_required (comments_view cfg)"

subsection \<open>Friends\<close>

text \<open>Lines 221 to 233, with the row of the current user and the looked-up target.\<close>

definition add_friend :: "world \<Rightarrow> user \<Rightarrow> user option \<Rightarrow> world" where
  "add_friend w u friend =
     (let friend_ids = select_friend_ids w (user_id u) in
      case friend of
        None \<Rightarrow> flash ''User does not exist!'' ''warning'' w
      | Some f \<Rightarrow>
          if user_id f = user_id u
          then flash ''You cannot be friends with yourself!'' ''warning'' w
          else if user_id f \<in> set friend_ids
          then flash ''You are already friends with this user!'' ''warning'' w
          else flash ''Friend successfully added!'' ''success''
                 (insert_friend w (user_id u) (user_id f)))"

definition friends_view :: "config \<Rightarrow> world \<Rightarrow> request \<Rightarrow> world \<times> response" where
  "friends_view cfg w req =
     (if mismatch w req \<and> meth req = GET
      then (w, redirect (url_for_user UFriends (s_username (session w))))
      else
        let uname = effective_username w req; friends_form = friends_data req in
        case s_user_id (session w) of
          None \<Rightarrow> (w, ServerError KeyError)
        | Some sid \<Rightarrow>
            (case select_user_by_id w sid of
               None \<Rightarrow> (w, ServerError TypeError)
             | Some u \<Rightarrow>
                 let w' = (if validate_on_submit (meth req) (ff_valid friends_form)
                           then add_friend w u (select_user_by_username w (ff_username friends_form))
                           else w)
                 in render_template cfg w'
                      (FriendsPage uname (select_friends w' (user_id u)) friends_form)))"

definition friends :: "config \<Rightarrow> world \<Rightarrow> request \<Rightarrow> world \<times> response" where
  "friends cfg = login_required (friends_view cfg)"

subsection \<open>Profile\<close>

definition profile_view :: "config \<Rightarrow> world \<Rightarrow> request \<Rightarrow> world \<times> response" where
  "profile_view cfg w req =
     (if mismatch w req \<and> meth req = GET
      then (w, redirect (url_for_user UProfile (s_username (session w))))
      else
        let uname = effective_username w req; profile_form = profile_data req in
        case s_user_id (session w) of
          None \<Rightarrow> (w, ServerError KeyError)
        | Some sid \<Rightarrow>
            let user = select_user_by_id w sid in
            if validate_on_submit (meth req) (prf_valid profile_form)
            then (update_profile w profile_form sid, redirect (url_for_user UProfile uname))
            else render_template cfg w (ProfilePage uname user profile_form))"

definition profile :: "config \<Rightarrow> world \<Rightarrow> request \<Rightarrow> world \<times> response" where
  "profile cfg = login_required (profile_view cfg)"

subsection \<open>Serving uploads\<close>

definition uploads :: "config \<Rightarrow> world \<Rightarrow> string \<Rightarrow> response" where
  "uploads cfg w filename =
     (let lower_name = lower cfg filename in
      if endswith_any lower_name [''.html'', ''.htm'', ''.js''] then Abort 403
      else if serve_ext lower_name \<notin> allowed cfg then Abort 403
      else send_from_directory w filename)"

section \<open>The intended invariant of the table \<open>Friends\<close>\<close>

text \<open>No row occurs twice, and no row joins a user with itself.\<close>

definition friends_inv :: "world \<Rightarrow> bool" where
  "friends_inv w = (distinct (Friends w) \<and> list_all (\<lambda>e. fst e \<noteq> snd e) (Friends w))"

text \<open>
  The worlds reached from \<open>w0\<close> by requests to the friends route alone, each sent with
  some session and some request.
\<close>

inductive friends_reachable :: "config \<Rightarrow> world \<Rightarrow> world \<Rightarrow> bool"
  for cfg :: config and w0 :: world where
  start: "friends_reachable cfg w0 w0"
| request: "friends_reachable cfg w0 w \<Longrightarrow>
            friends_reachable cfg w0 (fst (friends cfg (w\<lparr>session := sess\<rparr>) req))"

section \<open>Example data\<close>

text \<open>
  A configuration, worlds and requests on which the properties below are instantiated.
\<close>

text \<open>
  The sanitizer of the example does what \<open>secure_filename\<close> of werkzeug does on a POSIX
  system to a name made of ASCII characters and fullwidth full stops (U+FF0E, the bytes
  EF BC 8E): the compatibility normalization turns the fullwidth full stop into a dot and
  what is still not ASCII is dropped; a slash becomes a space; the words between white
  space are joined by underscores; only letters, digits, \<open>_\<close>, \<open>.\<close> and \<open>-\<close> are kept; dots
  and underscores are stripped from both ends.
\<close>

fun to_ascii :: "string \<Rightarrow> string" where
  "to_ascii [] = []"
| "to_ascii (c # rest) =
     (if c = CHR 0xEF \<and> take 2 rest = [CHR 0xBC, CHR 0x8E] then CHR ''.'' # to_ascii (drop 2 rest)
      else if is_ascii c then c # to_ascii rest
      else to_ascii rest)"

definition is_space :: "char \<Rightarrow> bool" where
  "is_space c =
     (c \<in> set [CHR '' '', CHR 0x09, CHR 0x0A, CHR 0x0B, CHR 0x0C, CHR 0x0D,
               CHR 0x1C, CHR 0x1D, CHR 0x1E, CHR 0x1F])"

fun split_words :: "string \<Rightarrow> string \<Rightarrow> string list" where
  "split_words word [] = (if word = [] then [] else [word])"
| "split_words word (c # rest) =
     (if is_space c then (if word = [] then [] else [word]) @ split_words [] rest
      else split_words (word @ [c]) rest)"

fun join_words :: "string list \<Rightarrow> string" where
  "join_words [] = []"
| "join_words [word] = word"
| "join_words (word # others) = word @ CHR ''_'' # join_words others"

definition keep_safe_chars :: "string \<Rightarrow> string" where
  "keep_safe_chars name =
     filter (\<lambda>c. c \<in> set ''ABCDEFGHIJKLMNOPQRSTUVWXYZabcdefghijklmnopqrstuvwxyz0123456789_.-'') name"

definition strip_dots :: "string \<Rightarrow> string" where
  "strip_dots name =
     rev (dropWhile (\<lambda>c. c \<in> set ''._'') (rev (dropWhile (\<lambda>c. c \<in> set ''._'') name)))"

definition example_secure_filename :: "string \<Rightarrow> string" where
  "example_secure_filename name =
     strip_dots (keep_safe_chars (join_words (split_words []
       (map (\<lambda>c. if c = CHR ''/'' then CHR '' '' else c) (to_ascii name)))))"

text \<open>
  The case mappings of the example are those of Unicode on the Kelvin sign (U+212A, the
  bytes E2 84 AA), whose lowercase is \<open>k\<close>, and on the characters without case: every
  other byte beyond ASCII stays.
\<close>

definition example_unicode_lower :: "string \<Rightarrow> char \<Rightarrow> string \<Rightarrow> string" where
  "example_unicode_lower before c rest =
     (if c = CHR 0xE2 \<and> take 2 rest = [CHR 0x84, CHR 0xAA] then ''k''
      else if c = CHR 0x84 \<and> drop (length before - 1) before = [CHR 0xE2]
              \<and> take 1 rest = [CHR 0xAA] then []
      else if c = CHR 0xAA \<and> drop (length before - 2) before = [CHR 0xE2, CHR 0x84] then []
      else [c])"

definition example_cfg :: config where
  "example_cfg =
     \<lparr>ALLOWED_EXTENSIONS = Some {''png'', ''jpg'', ''jpeg'', ''gif''},
      secure_filename = example_secure_filename, unicode_lower = example_unicode_lower,
      shows_notices = (\<lambda>page. True)\<rparr>"

text \<open>The name \<open>evil.png\<close> written with a fullwidth full stop: no byte of it is a dot.\<close>

definition fullwidth_name :: string where
  "fullwidth_name = ''evil'' @ [CHR 0xEF, CHR 0xBC, CHR 0x8E] @ ''png''"

text \<open>The name \<open>a.K\<close> written with the Kelvin sign.\<close>

definition kelvin_name :: string where
  "kelvin_name = ''a.'' @ [CHR 0xE2, CHR 0x84, CHR 0xAA]"

definition new_user :: "int \<Rightarrow> string \<Rightarrow> string \<Rightarrow> user" where
  "new_user i name pw =
     \<lparr>user_id = i, username = name, first_name = ''First'', last_name = ''Last'', password = pw,
      education = None, employment = None, music = None, movie = None, nationality = None,
      birthday = None\<rparr>"

definition alice :: user where
  "alice = new_user 1 ''alice'' ''wonderland''"

definition bob :: user where
  "bob = new_user 2 ''bob'' ''builder''"

definition session_of :: "user \<Rightarrow> session" where
  "session_of u = session_clear\<lparr>s_user_id := Some (user_id u), s_username := Some (username u)\<rparr>"

definition empty_world :: world where
  "empty_world =
     \<lparr>Users = [], Posts = [], Comments = [], Friends = [], uploads_dir = Map.empty,
      session = session_clear, flashed = []\<rparr>"

text \<open>Alice and Bob are registered, Alice has written one post, nobody is signed in.\<close>

definition hello_post :: post where
  "hello_post =
     \<lparr>post_id = 1, post_u_id = 1, content = ''hello'', image = None, post_creation_time = 5\<rparr>"

definition demo_world :: world where
  "demo_world = empty_world\<lparr>Users := [alice, bob], Posts := [hello_post]\<rparr>"

definition blank_request :: request where
  "blank_request =
     \<lparr>meth = GET, url_username = [], url_post_id = 0,
      index_data = \<lparr>login = \<lparr>l_valid = False, l_submit = False, l_username = [], l_password = []\<rparr>,
                    register = \<lparr>r_valid = False, r_submit = False, r_username = [],
                                r_first_name = [], r_last_name = [], r_password = []\<rparr>\<rparr>,
      post_data = \<lparr>pf_valid = False, pf_content = [], pf_image = None\<rparr>,
      comments_data = \<lparr>cf_valid = False, cf_comment = []\<rparr>,
      friends_data = \<lparr>ff_valid = False, ff_username = []\<rparr>,
      profile_data = \<lparr>prf_valid = False, prf_education = [], prf_employment = [],
                      prf_music = [], prf_movie = [], prf_nationality = [],
                      prf_birthday = []\<rparr>,
      now = 10, token_hex = ''00112233aabbccdd''\<rparr>"

text \<open>The registration form and the login form, submitted with a username and a password.\<close>

definition register_request :: "string \<Rightarrow> string \<Rightarrow> request" where
  "register_request name pw =
     blank_request\<lparr>meth := POST,
       index_data := \<lparr>login = login (index_data blank_request),
                       register = \<lparr>r_valid = True, r_submit = True, r_username = name,
                                   r_first_name = ''First'', r_last_name = ''Last'',
                                   r_password = pw\<rparr>\<rparr>\<rparr>"

definition login_request :: "string \<Rightarrow> string \<Rightarrow> request" where
  "login_request name pw =
     blank_request\<lparr>meth := POST,
       index_data := \<lparr>login = \<lparr>l_valid = True, l_submit = True, l_username = name,
                                l_password = pw\<rparr>,
                       register = register (index_data blank_request)\<rparr>\<rparr>"

text \<open>A post submitted to the stream of \<open>name\<close>, with a file or without.\<close>

definition post_request :: "string \<Rightarrow> string \<Rightarrow> (string \<times> string) option \<Rightarrow> request" where
  "post_request name text file =
     blank_request\<lparr>meth := POST, url_username := name,
       post_data := \<lparr>pf_valid = True, pf_content = text, pf_image = file\<rparr>\<rparr>"

text \<open>The friends form submitted on the page of \<open>name\<close>, asking for \<open>target\<close>.\<close>

definition friend_request :: "string \<Rightarrow> string \<Rightarrow> request" where
  "friend_request name target =
     blank_request\<lparr>meth := POST, url_username := name,
       friends_data := \<lparr>ff_valid = True, ff_username = target\<rparr>\<rparr>"

text \<open>A comment submitted on the page of post \<open>pid\<close>.\<close>

definition comment_request :: "string \<Rightarrow> int \<Rightarrow> string \<Rightarrow> request" where
  "comment_request name pid text =
     blank_request\<lparr>meth := POST, url_username := name, url_post_id := pid,
       comments_data := \<lparr>cf_valid = True, cf_comment = text\<rparr>\<rparr>"

section \<open>Properties\<close>

text \<open>The definitions of the example data, unfolded where a property is instantiated.\<close>

lemmas fixture_defs = example_cfg_def new_user_def alice_def bob_def session_of_def
  empty_world_def hello_post_def demo_world_def blank_request_def register_request_def
  login_request_def post_request_def friend_request_def comment_request_def session_clear_def

lemmas sanitizer_defs = example_secure_filename_def strip_dots_def keep_safe_chars_def
  is_space_def is_ascii_def fullwidth_name_def

subsection \<open>Strings\<close>


lemma lower_from_ascii:
  "list_all is_ascii s \<Longrightarrow> lower_from f before s = map lower_char s"
  by (induction s arbitrary: before) simp_all

lemma lower_from_append:
  "\<exists>x. lower_from f before (p @ q) = x @ lower_from f (before @ p) q"
proof (induction p arbitrary: before)
  case Nil
  show ?case by simp
next
  case (Cons c p)
  obtain x where "lower_from f (before @ [c]) (p @ q) = x @ lower_from f ((before @ [c]) @ p) q"
    using Cons [of "before @ [c]"] by blast
  then show ?case by simp
qed



lemma endswith_iff: "endswith s suf \<longleftrightarrow> (\<exists>p. s = p @ suf)"
  unfolding endswith_def
proof
  assume "length suf \<le> length s \<and> drop (length s - length suf) s = suf"
  then have "s = take (length s - length suf) s @ suf" by (metis append_take_drop_id)
  then show "\<exists>p. s = p @ suf" ..
next
  assume "\<exists>p. s = p @ suf"
  then show "length suf \<le> length s \<and> drop (length s - length suf) s = suf" by auto
qed

lemma endswith_lower:
  assumes "list_all is_ascii suf" and "endswith s suf"
  shows "endswith (lower cfg s) (map lower_char suf)"
proof -
  obtain p where "s = p @ suf" using assms(2) by (auto simp add: endswith_iff)
  moreover obtain x where "lower_from (unicode_lower cfg) [] (p @ suf) =
      x @ lower_from (unicode_lower cfg) ([] @ p) suf"
    using lower_from_append by blast
  ultimately have "lower cfg s = x @ map lower_char suf"
    using assms(1) by (simp add: lower_def lower_from_ascii)
  then show ?thesis by (auto simp add: endswith_iff)
qed


subsection \<open>The session guard\<close>

lemma redirect_Inr: "redirect (Inr u) = Redirect u"
  by (simp add: redirect_def)

lemma login_required_anonymous:
  "s_user_id (session w) = None \<Longrightarrow>
   login_required view w args = (flash ''Please sign in.'' ''warning'' w, Redirect UIndex)"
  by (simp add: login_required_def redirect_Inr)

lemma login_required_authenticated:
  "s_user_id (session w) = Some sid \<Longrightarrow> login_required view w args = view w args"
  by (simp add: login_required_def)

text \<open>Rendering a page touches nothing but the session key of the notices.\<close>

lemma render_template_frame:
  "Users (fst (render_template cfg w page)) = Users w"
  "Posts (fst (render_template cfg w page)) = Posts w"
  "Comments (fst (render_template cfg w page)) = Comments w"
  "Friends (fst (render_template cfg w page)) = Friends w"
  "uploads_dir (fst (render_template cfg w page)) = uploads_dir w"
  "flashed (fst (render_template cfg w page)) = flashed w"
  "s_user_id (session (fst (render_template cfg w page))) = s_user_id (session w)"
  "s_username (session (fst (render_template cfg w page))) = s_username (session w)"
  "s_other (session (fst (render_template cfg w page))) = s_other (session w)"
  "snd (render_template cfg w page) = Render page"
  by (simp_all add: render_template_def)

lemma render_template_queries:
  "select_friends (fst (render_template cfg w page)) uid = select_friends w uid"
  "get_posts (fst (render_template cfg w page)) uid = get_posts w uid"
  "select_post (fst (render_template cfg w page)) pid = select_post w pid"
  "select_comments (fst (render_template cfg w page)) pid = select_comments w pid"
  by (simp_all only: select_friends_def get_posts_def visible_to_def select_post_def
      select_comments_def render_template_frame)

text \<open>
  C2. On each of the four gated routes (stream, comments, friends, profile), a request
  whose session has no \<open>user_id\<close> key is answered by the warning notice
  \<open>Please sign in.\<close> and a redirect to the index page; apart from that notice (in the
  log and under the session key of the notices) the world is the one before the request:
  no table and no file changes. The answer is the same whatever the wrapped handler is,
  which is therefore not run.
\<close>

theorem session_guard_redirects:
  assumes "s_user_id (session w) = None"
  shows "(\<forall>route \<in> {stream cfg, comments cfg, friends cfg, profile cfg}.
            route w req =
              (w\<lparr>flashed := flashed w @ [(''Please sign in.'', ''warning'')],
                 session := (session w)\<lparr>s_flashes :=
                   Some (session_flashes (session w) @ [(''warning'', ''Please sign in.'')])\<rparr>\<rparr>,
               Redirect UIndex))
         \<and> (\<forall>view. login_required view w req =
              (w\<lparr>flashed := flashed w @ [(''Please sign in.'', ''warning'')],
                 session := (session w)\<lparr>s_flashes :=
                   Some (session_flashes (session w) @ [(''warning'', ''Please sign in.'')])\<rparr>\<rparr>,
               Redirect UIndex))"
  using assms
  by (simp add: stream_def comments_def friends_def profile_def login_required_anonymous flash_def)

theorem session_guard_redirects_witness:
  "s_user_id (session demo_world) = None
   \<and> friends example_cfg demo_world (friend_request ''alice'' ''bob'') =
       (demo_world\<lparr>flashed := [(''Please sign in.'', ''warning'')],
          session := session_clear\<lparr>s_flashes := Some [(''warning'', ''Please sign in.'')]\<rparr>\<rparr>,
        Redirect UIndex)"
proof -
  have h: "s_user_id (session demo_world) = None" by (simp add: fixture_defs)
  have f: "flashed demo_world = []" "session demo_world = session_clear"
    "session_flashes session_clear = []"
    by (simp_all add: demo_world_def empty_world_def session_flashes_def session_clear_def)
  show ?thesis
    using h f session_guard_redirects [OF h, of example_cfg "friend_request ''alice'' ''bob''"]
    by simp
qed

subsection \<open>Serving uploads\<close>

text \<open>
  C4. The uploads route answers 403 exactly when the lowercase filename ends in
  \<open>.html\<close>, \<open>.htm\<close> or \<open>.js\<close>, or its extension is not in the allow-list. A name that
  ends in \<open>.js\<close> or \<open>.html\<close> is answered 403 whatever the allow-list holds. In every other
  case the answer is the one of \<open>send_from_directory\<close> on the uploads directory.
\<close>

theorem uploads_forbidden_iff:
  "(uploads cfg w filename = Abort 403 \<longleftrightarrow>
      endswith (lower cfg filename) ''.html'' \<or> endswith (lower cfg filename) ''.htm''
      \<or> endswith (lower cfg filename) ''.js'' \<or> serve_ext (lower cfg filename) \<notin> allowed cfg)
   \<and> (endswith filename ''.js'' \<or> endswith filename ''.html'' \<longrightarrow>
        uploads cfg w filename = Abort 403)
   \<and> (uploads cfg w filename \<noteq> Abort 403 \<longrightarrow>
        uploads cfg w filename = send_from_directory w filename)"
proof -
  have l: "map lower_char ''.js'' = ''.js''" "map lower_char ''.html'' = ''.html''"
    "list_all is_ascii ''.js''" "list_all is_ascii ''.html''"
    by (simp_all add: lower_char_def is_ascii_def)
  have a: "endswith filename ''.js'' \<Longrightarrow> endswith (lower cfg filename) ''.js''"
    using endswith_lower [of "''.js''" filename cfg] l by simp
  have b: "endswith filename ''.html'' \<Longrightarrow> endswith (lower cfg filename) ''.html''"
    using endswith_lower [of "''.html''" filename cfg] l by simp
  have s: "send_from_directory w filename \<noteq> Abort 403"
    by (simp add: send_from_directory_def split: option.split)
  show ?thesis
    using a b s by (auto simp add: uploads_def endswith_any_def Let_def)
qed

theorem uploads_forbidden_iff_witness:
  "endswith ''evil.js'' ''.js''
   \<and> uploads (example_cfg\<lparr>ALLOWED_EXTENSIONS := Some {''js'', ''html''}\<rparr>) demo_world ''evil.js''
       = Abort 403
   \<and> uploads example_cfg (save_file demo_world ''ab_cat.PNG'' ''data'') ''ab_cat.PNG''
       = SendFile ''data''"
proof -
  have h: "endswith ''evil.js'' ''.js''" by (simp add: endswith_def)
  have e: "lower example_cfg ''ab_cat.PNG'' = ''ab_cat.png''"
    by (simp add: lower_def lower_char_def is_ascii_def)
  have n: "\<not> (endswith ''ab_cat.png'' ''.html'' \<or> endswith ''ab_cat.png'' ''.htm''
               \<or> endswith ''ab_cat.png'' ''.js''
               \<or> serve_ext ''ab_cat.png'' \<notin> allowed example_cfg)"
    by (simp add: endswith_def serve_ext_def rsplit_last_def allowed_def example_cfg_def)
  have s: "send_from_directory (save_file demo_world ''ab_cat.PNG'' ''data'') ''ab_cat.PNG''
             = SendFile ''data''"
    by (simp add: send_from_directory_def save_file_def)
  show ?thesis
    using h e n s
      uploads_forbidden_iff [of "example_cfg\<lparr>ALLOWED_EXTENSIONS := Some {''js'', ''html''}\<rparr>"
        demo_world "''evil.js''"]
      uploads_forbidden_iff [of example_cfg "save_file demo_world ''ab_cat.PNG'' ''data''"
        "''ab_cat.PNG''"]
    by simp
qed

text \<open>
  The lowercase is the one of Unicode: with \<open>k\<close> in the allow-list, the name \<open>a.K\<close> written
  with the Kelvin sign has the extension \<open>k\<close> and its file is served.
\<close>

lemma uploads_kelvin_sign:
  "uploads (example_cfg\<lparr>ALLOWED_EXTENSIONS := Some {''k''}\<rparr>)
     (save_file demo_world kelvin_name ''data'') kelvin_name = SendFile ''data''"
  by (simp add: uploads_def lower_def lower_char_def is_ascii_def kelvin_name_def example_cfg_def
      example_unicode_lower_def endswith_any_def endswith_def serve_ext_def rsplit_last_def
      allowed_def send_from_directory_def save_file_def Let_def)

subsection \<open>Uploads in the stream handler\<close>

lemma effective_username_session:
  "s_username (session w) = Some su \<Longrightarrow> effective_username w req = Some su"
  by (auto simp add: effective_username_def mismatch_def)

lemma redirect_user: "redirect (url_for_user ep (Some name)) = Redirect (ep name)"
  by (simp add: redirect_def url_for_user_def)

lemma stream_rejects_file:
  assumes "validate_on_submit (meth req) (pf_valid (post_data req))"
      and "pf_image (post_data req) = Some (fname, data)" and "fname \<noteq> []"
      and "upload_ext cfg (secure_filename cfg fname) \<notin> allowed cfg"
      and "s_user_id (session w) = Some sid"
  shows "stream cfg w req =
           (flash ''File type not allowed'' ''warning'' w,
            redirect (url_for_user UStream (effective_username w req)))"
proof -
  have "meth req = POST" using assms(1) by (simp add: validate_on_submit_def)
  then show ?thesis
    using assms
    by (simp add: stream_def login_required_authenticated stream_view_def Let_def)
qed

text \<open>
  C3. A post submitted to the stream by a signed-in user, with an attached file whose
  sanitized lowercase extension is not in the allow-list, is answered by the warning
  notice \<open>File type not allowed\<close> and a redirect to the stream of the session's user;
  the uploads directory and the table \<open>Posts\<close> are what they were, so the text of the
  post is dropped together with the file.
\<close>

theorem disallowed_upload_rejected:
  assumes "s_user_id (session w) = Some sid" and "s_username (session w) = Some su"
      and "validate_on_submit (meth req) (pf_valid (post_data req))"
      and "pf_image (post_data req) = Some (fname, data)" and "fname \<noteq> []"
      and "upload_ext cfg (secure_filename cfg fname) \<notin> allowed cfg"
  shows "stream cfg w req =
           (w\<lparr>flashed := flashed w @ [(''File type not allowed'', ''warning'')],
              session := (session w)\<lparr>s_flashes :=
                Some (session_flashes (session w) @ [(''warning'', ''File type not allowed'')])\<rparr>\<rparr>,
            Redirect (UStream su))
         \<and> uploads_dir (fst (stream cfg w req)) = uploads_dir w
         \<and> Posts (fst (stream cfg w req)) = Posts w"
  using stream_rejects_file [OF assms(3,4,5,6,1)] effective_username_session [OF assms(2)]
  by (simp add: flash_def redirect_user)

theorem disallowed_upload_rejected_witness:
  "stream example_cfg (demo_world\<lparr>session := session_of alice\<rparr>)
     (post_request ''alice'' ''look'' (Some (''evil.php'', ''data''))) =
     (demo_world\<lparr>flashed := [(''File type not allowed'', ''warning'')],
        session := (session_of alice)\<lparr>s_flashes := Some [(''warning'', ''File type not allowed'')]\<rparr>\<rparr>,
      Redirect (UStream ''alice''))"
proof -
  have s: "secure_filename example_cfg ''evil.php'' = ''evil.php''"
    by (simp add: example_cfg_def sanitizer_defs)
  have e: "upload_ext example_cfg (secure_filename example_cfg ''evil.php'') \<notin> allowed example_cfg"
    unfolding s
    by (simp add: upload_ext_def rsplit_last_def lower_def lower_char_def is_ascii_def
        allowed_def example_cfg_def)
  show ?thesis
    using disallowed_upload_rejected [of "demo_world\<lparr>session := session_of alice\<rparr>" 1 "''alice''"
        "post_request ''alice'' ''look'' (Some (''evil.php'', ''data''))" "''evil.php''" "''data''"
        example_cfg, OF _ _ _ _ _ e]
    by (simp add: fixture_defs validate_on_submit_def session_flashes_def)
qed






subsection \<open>Registration and login\<close>

lemma find_append_fresh:
  "\<not> list_ex P xs \<Longrightarrow> List.find P (xs @ ys) = List.find P ys"
  by (induction xs) auto

lemma insert_user_Inr:
  assumes "insert_user w name fname lname pw = Inr w'"
  shows "\<not> list_ex (\<lambda>u. username u = name) (Users w)"
    and "w' = w\<lparr>Users := Users w @
             [\<lparr>user_id = next_id (map user_id (Users w)), username = name,
               first_name = fname, last_name = lname, password = pw,
               education = None, employment = None, music = None, movie = None,
               nationality = None, birthday = None\<rparr>]\<rparr>"
  using assms by (auto simp add: insert_user_def split: if_splits)

lemma index_register:
  assumes "\<not> login_submitted req" and "register_submitted req"
  shows "index cfg w req =
           (case insert_user w (r_username (register (index_data req)))
                   (r_first_name (register (index_data req)))
                   (r_last_name (register (index_data req)))
                   (r_password (register (index_data req))) of
              Inl e \<Rightarrow> (w, ServerError e)
            | Inr w' \<Rightarrow> (flash ''User successfully created!'' ''success'' w', Redirect UIndex))"
  using assms by (simp add: index_def Let_def redirect_Inr split: sum.split)

lemma index_login_found:
  assumes "login_submitted req"
      and "select_user_by_username w (l_username (login (index_data req))) = Some u"
      and "password u = l_password (login (index_data req))"
  shows "index cfg w req =
           (w\<lparr>session := \<lparr>s_user_id = Some (user_id u), s_username = Some (username u),
                            s_flashes = None, s_other = Map.empty\<rparr>\<rparr>,
            Redirect (UStream (username u)))"
  using assms by (simp add: index_def Let_def session_clear_def redirect_user)

text \<open>
  C10, as amended. When the registration branch of the index handler runs, the keys
  \<open>user_id\<close> and \<open>username\<close> of the session, and every key but the one of the notices,
  are after the request what they were before: a session without \<open>user_id\<close> stays
  without it, and the new user is not signed in. When the row is inserted, the success
  notice is appended under the key of the notices, which is created if it was absent;
  when the insertion raises, the session is unchanged. The index handler changes
  \<open>user_id\<close> or \<open>username\<close> only in the login branch, when the password matches, and the
  session then holds exactly the two keys of that user.
\<close>

theorem registration_keeps_login_keys:
  "(\<not> login_submitted req \<and> register_submitted req \<longrightarrow>
      s_user_id (session (fst (index cfg w req))) = s_user_id (session w)
      \<and> s_username (session (fst (index cfg w req))) = s_username (session w)
      \<and> s_other (session (fst (index cfg w req))) = s_other (session w)
      \<and> (snd (index cfg w req) = Redirect UIndex \<longrightarrow>
           s_flashes (session (fst (index cfg w req))) =
             Some (session_flashes (session w) @ [(''success'', ''User successfully created!'')]))
      \<and> (snd (index cfg w req) \<noteq> Redirect UIndex \<longrightarrow> session (fst (index cfg w req)) = session w))
   \<and> (s_user_id (session (fst (index cfg w req))) \<noteq> s_user_id (session w)
       \<or> s_username (session (fst (index cfg w req))) \<noteq> s_username (session w) \<longrightarrow>
        login_submitted req
        \<and> (\<exists>u. select_user_by_username w (l_username (login (index_data req))) = Some u
               \<and> password u = l_password (login (index_data req))
               \<and> session (fst (index cfg w req)) =
                   \<lparr>s_user_id = Some (user_id u), s_username = Some (username u),
                    s_flashes = None, s_other = Map.empty\<rparr>))"
proof -
  have frame: "s_user_id (session (fst (index cfg w req))) = s_user_id (session w)
      \<and> s_username (session (fst (index cfg w req))) = s_username (session w)
      \<and> s_other (session (fst (index cfg w req))) = s_other (session w)
      \<and> (snd (index cfg w req) = Redirect UIndex \<longrightarrow>
           s_flashes (session (fst (index cfg w req))) =
             Some (session_flashes (session w) @ [(''success'', ''User successfully created!'')]))
      \<and> (snd (index cfg w req) \<noteq> Redirect UIndex \<longrightarrow> session (fst (index cfg w req)) = session w)"
    if "\<not> login_submitted req" and "register_submitted req"
    using index_register [OF that, of cfg w]
    by (auto simp add: flash_def split: sum.splits dest: insert_user_Inr(2))
  have only_login: "login_submitted req
        \<and> (\<exists>u. select_user_by_username w (l_username (login (index_data req))) = Some u
               \<and> password u = l_password (login (index_data req))
               \<and> session (fst (index cfg w req)) =
                   \<lparr>s_user_id = Some (user_id u), s_username = Some (username u),
                    s_flashes = None, s_other = Map.empty\<rparr>)"
    if d: "s_user_id (session (fst (index cfg w req))) \<noteq> s_user_id (session w)
           \<or> s_username (session (fst (index cfg w req))) \<noteq> s_username (session w)"
  proof (cases "login_submitted req")
    case True
    then show ?thesis
      using d
      by (auto simp add: index_def Let_def flash_def session_clear_def render_template_def
          split: option.splits if_splits)
  next
    case False
    then show ?thesis
      using d
      by (auto simp add: index_def Let_def flash_def render_template_def
          split: sum.splits if_splits dest: insert_user_Inr(2))
  qed
  show ?thesis using frame only_login by blast
qed

theorem registration_keeps_login_keys_witness:
  "\<not> login_submitted (register_request ''carol'' ''pw'')
   \<and> register_submitted (register_request ''carol'' ''pw'')
   \<and> snd (index example_cfg (demo_world\<lparr>session := session_of alice\<rparr>) (register_request ''carol'' ''pw''))
       = Redirect UIndex
   \<and> session (fst (index example_cfg (demo_world\<lparr>session := session_of alice\<rparr>)
                      (register_request ''carol'' ''pw''))) =
       (session_of alice)\<lparr>s_flashes := Some [(''success'', ''User successfully created!'')]\<rparr>"
proof -
  let ?w = "demo_world\<lparr>session := session_of alice\<rparr>"
  let ?req = "register_request ''carol'' ''pw''"
  have a: "\<not> login_submitted ?req" and b: "register_submitted ?req"
    by (simp_all add: login_submitted_def register_submitted_def validate_on_submit_def
        register_request_def blank_request_def)
  have r: "snd (index example_cfg ?w ?req) = Redirect UIndex"
    using index_register [OF a b, of example_cfg ?w]
    by (simp add: insert_user_def fixture_defs)
  have f: "session_flashes (session ?w) = []"
    by (simp add: session_flashes_def fixture_defs)
  have "session (fst (index example_cfg ?w ?req)) =
          (session ?w)\<lparr>s_flashes := Some [(''success'', ''User successfully created!'')]\<rparr>"
    using registration_keeps_login_keys [of ?req example_cfg ?w] a b r f
    by (intro session.equality) simp_all
  then show ?thesis using a b r by simp
qed

text \<open>
  C10 as stated fails on the key of the notices: nobody is signed in and the session has
  no key; after Carol's registration it has the key \<open>_flashes\<close> with the success notice.
\<close>

theorem registration_keeps_login_keys_counterexample:
  "\<not> login_submitted (register_request ''carol'' ''pw'')
   \<and> register_submitted (register_request ''carol'' ''pw'')
   \<and> session demo_world = session_clear
   \<and> s_flashes (session_clear) = None
   \<and> s_flashes (session (fst (index example_cfg demo_world (register_request ''carol'' ''pw'')))) =
       Some [(''success'', ''User successfully created!'')]
   \<and> session (fst (index example_cfg demo_world (register_request ''carol'' ''pw''))) \<noteq> session demo_world"
proof -
  let ?req = "register_request ''carol'' ''pw''"
  have a: "\<not> login_submitted ?req" and b: "register_submitted ?req"
    by (simp_all add: login_submitted_def register_submitted_def validate_on_submit_def
        register_request_def blank_request_def)
  have s: "session demo_world = session_clear" "s_flashes (session_clear) = None"
    by (simp_all add: demo_world_def empty_world_def session_clear_def)
  have f: "s_flashes (session (fst (index example_cfg demo_world ?req))) =
       Some [(''success'', ''User successfully created!'')]"
    using index_register [OF a b, of example_cfg demo_world]
    by (simp add: insert_user_def flash_def session_flashes_def fixture_defs)
  have "s_flashes (session (fst (index example_cfg demo_world ?req))) \<noteq> s_flashes (session demo_world)"
    using f s by simp
  then have "session (fst (index example_cfg demo_world ?req)) \<noteq> session demo_world" by auto
  then show ?thesis using a b s f by simp
qed

text \<open>
  C1. When the registration branch of the index handler inserts the row, a following
  login with the same username and password, from any session, clears that session,
  stores the id and the username of the new row in it and redirects to the stream of that
  user. The table \<open>Users\<close> accepts the row only when no row has the username, so the
  login finds the new row.
\<close>

theorem register_then_login:
  assumes "\<not> login_submitted reg" and "register_submitted reg"
      and "index cfg w reg = (w1, Redirect UIndex)"
      and "login_submitted lg"
      and "l_username (login (index_data lg)) = r_username (register (index_data reg))"
      and "l_password (login (index_data lg)) = r_password (register (index_data reg))"
  shows "Users w1 = Users w @ [last (Users w1)]
         \<and> username (last (Users w1)) = r_username (register (index_data reg))
         \<and> first_name (last (Users w1)) = r_first_name (register (index_data reg))
         \<and> last_name (last (Users w1)) = r_last_name (register (index_data reg))
         \<and> password (last (Users w1)) = r_password (register (index_data reg))
         \<and> index cfg (w1\<lparr>session := sess\<rparr>) lg =
             (w1\<lparr>session := \<lparr>s_user_id = Some (user_id (last (Users w1))),
                               s_username = Some (r_username (register (index_data reg))),
                               s_flashes = None, s_other = Map.empty\<rparr>\<rparr>,
              Redirect (UStream (r_username (register (index_data reg)))))"
proof -
  define name where "name = r_username (register (index_data reg))"
  define row where "row =
     \<lparr>user_id = next_id (map user_id (Users w)), username = name,
      first_name = r_first_name (register (index_data reg)),
      last_name = r_last_name (register (index_data reg)),
      password = r_password (register (index_data reg)),
      education = None, employment = None, music = None, movie = None,
      nationality = None, birthday = None\<rparr>"
  obtain w' where ins: "insert_user w name (r_first_name (register (index_data reg)))
                   (r_last_name (register (index_data reg)))
                   (r_password (register (index_data reg))) = Inr w'"
    and w1: "w1 = flash ''User successfully created!'' ''success'' w'"
    using assms(3) index_register [OF assms(1,2), of cfg w]
    by (auto simp add: name_def split: sum.splits)
  have fresh: "\<not> list_ex (\<lambda>u. username u = name) (Users w)"
    using insert_user_Inr(1) [OF ins] .
  have w': "w' = w\<lparr>Users := Users w @ [row]\<rparr>"
    using insert_user_Inr(2) [OF ins] by (simp add: row_def)
  have users: "Users w1 = Users w @ [row]" by (simp add: w1 w' flash_def)
  have found: "select_user_by_username (w1\<lparr>session := sess\<rparr>) name = Some row"
    using fresh by (simp add: select_user_by_username_def users find_append_fresh row_def)
  have "index cfg (w1\<lparr>session := sess\<rparr>) lg =
           (w1\<lparr>session := sess\<rparr>\<lparr>session := \<lparr>s_user_id = Some (user_id row),
               s_username = Some (username row), s_flashes = None, s_other = Map.empty\<rparr>\<rparr>,
            Redirect (UStream (username row)))"
    using index_login_found [of lg "w1\<lparr>session := sess\<rparr>" row cfg] assms(4,5,6) found
    by (simp add: name_def row_def)
  then show ?thesis using users by (simp add: row_def name_def)
qed

theorem register_then_login_witness:
  "index example_cfg demo_world (register_request ''carol'' ''pw'') =
     (demo_world\<lparr>Users := [alice, bob, new_user 3 ''carol'' ''pw''],
        flashed := [(''User successfully created!'', ''success'')],
        session := session_clear\<lparr>s_flashes := Some [(''success'', ''User successfully created!'')]\<rparr>\<rparr>,
      Redirect UIndex)
   \<and> index example_cfg
       (demo_world\<lparr>Users := [alice, bob, new_user 3 ''carol'' ''pw''],
          flashed := [(''User successfully created!'', ''success'')],
          session := session_of alice\<rparr>)
       (login_request ''carol'' ''pw'') =
     (demo_world\<lparr>Users := [alice, bob, new_user 3 ''carol'' ''pw''],
        flashed := [(''User successfully created!'', ''success'')],
        session := \<lparr>s_user_id = Some 3, s_username = Some ''carol'', s_flashes = None,
                    s_other = Map.empty\<rparr>\<rparr>,
      Redirect (UStream ''carol''))"
proof -
  let ?w1 = "demo_world\<lparr>Users := [alice, bob, new_user 3 ''carol'' ''pw''],
        flashed := [(''User successfully created!'', ''success'')],
        session := session_clear\<lparr>s_flashes := Some [(''success'', ''User successfully created!'')]\<rparr>\<rparr>"
  have r: "index example_cfg demo_world (register_request ''carol'' ''pw'') = (?w1, Redirect UIndex)"
    by (simp add: index_def login_submitted_def register_submitted_def validate_on_submit_def
        insert_user_def next_id_def flash_def session_flashes_def redirect_Inr Let_def fixture_defs)
  have a: "\<not> login_submitted (register_request ''carol'' ''pw'')"
    and b: "register_submitted (register_request ''carol'' ''pw'')"
    and c: "login_submitted (login_request ''carol'' ''pw'')"
    by (simp_all add: login_submitted_def register_submitted_def validate_on_submit_def fixture_defs)
  have d: "l_username (login (index_data (login_request ''carol'' ''pw''))) =
             r_username (register (index_data (register_request ''carol'' ''pw'')))"
    and e: "l_password (login (index_data (login_request ''carol'' ''pw''))) =
             r_password (register (index_data (register_request ''carol'' ''pw'')))"
    by (simp_all add: fixture_defs)
  show ?thesis
    using r register_then_login [OF a b r c d e, of "session_of alice"]
    by (simp add: fixture_defs)
qed

text \<open>
  A registration with a username that a row has raises in the table and inserts
  nothing; the handler does not catch the exception.
\<close>

lemma duplicate_registration_raises:
  "index example_cfg demo_world (register_request ''bob'' ''secret'') =
     (demo_world, ServerError IntegrityError)"
  by (simp add: index_def login_submitted_def register_submitted_def validate_on_submit_def
      insert_user_def Let_def fixture_defs)

text \<open>The users of the example are those that two registrations create in an empty store.\<close>

lemma demo_users_registered:
  "Users (fst (index example_cfg (fst (index example_cfg empty_world (register_request ''alice'' ''wonderland'')))
                 (register_request ''bob'' ''builder''))) = Users demo_world"
  by (simp add: index_def login_submitted_def register_submitted_def validate_on_submit_def
      insert_user_def next_id_def flash_def redirect_Inr Let_def fixture_defs)

subsection \<open>Friends\<close>

lemma select_user_by_id_Some:
  "select_user_by_id w sid = Some u \<Longrightarrow> user_id u = sid \<and> u \<in> set (Users w)"
  by (auto simp add: select_user_by_id_def find_Some_iff)

lemma select_user_by_username_Some:
  "select_user_by_username w name = Some u \<Longrightarrow> username u = name \<and> u \<in> set (Users w)"
  by (auto simp add: select_user_by_username_def find_Some_iff)

lemma already_friend_iff:
  "fid \<in> set (select_friend_ids w uid) \<longleftrightarrow> (uid, fid) \<in> set (Friends w)"
  by (force simp add: select_friend_ids_def)

lemma add_friend_Friends:
  "Friends (add_friend w u friend) =
     (case friend of
        None \<Rightarrow> Friends w
      | Some f \<Rightarrow>
          if user_id f = user_id u \<or> (user_id u, user_id f) \<in> set (Friends w) then Friends w
          else Friends w @ [(user_id u, user_id f)])"
  by (simp add: add_friend_def Let_def already_friend_iff flash_def insert_friend_def
      split: option.split)

lemma friends_submission:
  assumes "s_user_id (session w) = Some sid" and "select_user_by_id w sid = Some me"
      and "validate_on_submit (meth req) (ff_valid (friends_data req))"
  shows "friends cfg w req =
           render_template cfg
             (add_friend w me (select_user_by_username w (ff_username (friends_data req))))
             (FriendsPage (effective_username w req)
                (select_friends
                   (add_friend w me (select_user_by_username w (ff_username (friends_data req))))
                   (user_id me))
                (friends_data req))"
proof -
  have "meth req = POST" using assms(3) by (simp add: validate_on_submit_def)
  then show ?thesis
    using assms by (simp add: friends_def login_required_authenticated friends_view_def Let_def)
qed

lemma friends_Friends:
  "Friends (fst (friends cfg w req)) = Friends w
   \<or> (\<exists>u friend. Friends (fst (friends cfg w req)) = Friends (add_friend w u friend))"
  by (auto simp add: friends_def login_required_def friends_view_def Let_def flash_def
      render_template_frame split: option.splits)

lemma add_friend_inv: "friends_inv w \<Longrightarrow> friends_inv (add_friend w u friend)"
  by (auto simp add: friends_inv_def add_friend_Friends split: option.splits)

lemma friends_request_inv: "friends_inv w \<Longrightarrow> friends_inv (fst (friends cfg w req))"
  using friends_Friends [of cfg w req] add_friend_inv [of w]
  by (auto simp add: friends_inv_def)

text \<open>
  C5. A friends form submitted by a signed-in user: when no user has the submitted
  username, or the target is the user itself, or the edge from the user to the target
  is already in the table, the handler flashes a warning and the table \<open>Friends\<close> is
  unchanged; otherwise exactly the edge from the user to the target is appended and the
  success notice is flashed. Hence every world reached through the friends route alone,
  from a world without duplicate edges and without self-edges (an empty table for
  one), has neither.
\<close>

theorem friend_add_cases_and_invariant:
  "(s_user_id (session w) = Some sid \<and> select_user_by_id w sid = Some me
      \<and> validate_on_submit (meth req) (ff_valid (friends_data req)) \<longrightarrow>
      (case select_user_by_username w (ff_username (friends_data req)) of
         None \<Rightarrow>
           Friends (fst (friends cfg w req)) = Friends w
           \<and> flashed (fst (friends cfg w req)) = flashed w @ [(''User does not exist!'', ''warning'')]
       | Some target \<Rightarrow>
           if user_id target = user_id me then
             Friends (fst (friends cfg w req)) = Friends w
             \<and> flashed (fst (friends cfg w req)) =
                 flashed w @ [(''You cannot be friends with yourself!'', ''warning'')]
           else if (user_id me, user_id target) \<in> set (Friends w) then
             Friends (fst (friends cfg w req)) = Friends w
             \<and> flashed (fst (friends cfg w req)) =
                 flashed w @ [(''You are already friends with this user!'', ''warning'')]
           else
             Friends (fst (friends cfg w req)) = Friends w @ [(user_id me, user_id target)]
             \<and> flashed (fst (friends cfg w req)) =
                 flashed w @ [(''Friend successfully added!'', ''success'')]))
   \<and> (friends_inv w0 \<and> friends_reachable cfg w0 w1 \<longrightarrow> friends_inv w1)
   \<and> (Friends w0 = [] \<and> friends_reachable cfg w0 w1 \<longrightarrow>
        distinct (Friends w1) \<and> (\<forall>(u, f) \<in> set (Friends w1). u \<noteq> f))"
proof -
  have cases: "(case select_user_by_username w (ff_username (friends_data req)) of
         None \<Rightarrow>
           Friends (fst (friends cfg w req)) = Friends w
           \<and> flashed (fst (friends cfg w req)) = flashed w @ [(''User does not exist!'', ''warning'')]
       | Some target \<Rightarrow>
           if user_id target = user_id me then
             Friends (fst (friends cfg w req)) = Friends w
             \<and> flashed (fst (friends cfg w req)) =
                 flashed w @ [(''You cannot be friends with yourself!'', ''warning'')]
           else if (user_id me, user_id target) \<in> set (Friends w) then
             Friends (fst (friends cfg w req)) = Friends w
             \<and> flashed (fst (friends cfg w req)) =
                 flashed w @ [(''You are already friends with this user!'', ''warning'')]
           else
             Friends (fst (friends cfg w req)) = Friends w @ [(user_id me, user_id target)]
             \<and> flashed (fst (friends cfg w req)) =
                 flashed w @ [(''Friend successfully added!'', ''success'')])"
    if "s_user_id (session w) = Some sid" and "select_user_by_id w sid = Some me"
      and "validate_on_submit (meth req) (ff_valid (friends_data req))"
    using friends_submission [OF that, of cfg]
    by (simp add: add_friend_def Let_def already_friend_iff flash_def insert_friend_def
        render_template_frame split: option.split)
  have inv: "friends_inv w1" if "friends_inv w0" and "friends_reachable cfg w0 w1"
    using that(2,1)
  proof (induction rule: friends_reachable.induct)
    case start
    then show ?case .
  next
    case (request w sess req)
    then have "friends_inv (w\<lparr>session := sess\<rparr>)" by (simp add: friends_inv_def)
    then show ?case by (rule friends_request_inv)
  qed
  have empty: "distinct (Friends w1) \<and> (\<forall>(u, f) \<in> set (Friends w1). u \<noteq> f)"
    if "Friends w0 = []" and "friends_reachable cfg w0 w1"
  proof -
    have "friends_inv w0" using that(1) by (simp add: friends_inv_def)
    then have "friends_inv w1" using that(2) by (rule inv)
    then show ?thesis by (auto simp add: friends_inv_def list_all_iff)
  qed
  show ?thesis using cases inv empty by blast
qed

theorem friend_add_cases_and_invariant_witness:
  "Friends demo_world = []
   \<and> friends_reachable example_cfg demo_world
       (fst (friends example_cfg (demo_world\<lparr>session := session_of alice\<rparr>) (friend_request ''alice'' ''bob'')))
   \<and> Friends (fst (friends example_cfg (demo_world\<lparr>session := session_of alice\<rparr>)
                      (friend_request ''alice'' ''bob''))) = [(1, 2)]
   \<and> friends_inv (fst (friends example_cfg (demo_world\<lparr>session := session_of alice\<rparr>)
                         (friend_request ''alice'' ''bob'')))"
proof -
  let ?w = "demo_world\<lparr>session := session_of alice\<rparr>"
  let ?req = "friend_request ''alice'' ''bob''"
  have e: "Friends demo_world = []" by (simp add: fixture_defs)
  have i: "friends_inv demo_world" by (simp add: friends_inv_def e)
  have r: "friends_reachable example_cfg demo_world (fst (friends example_cfg ?w ?req))"
    by (rule friends_reachable.request) (rule friends_reachable.start)
  have s: "s_user_id (session ?w) = Some 1" by (simp add: fixture_defs)
  have m: "select_user_by_id ?w 1 = Some alice"
    by (simp add: select_user_by_id_def fixture_defs)
  have v: "validate_on_submit (meth ?req) (ff_valid (friends_data ?req))"
    by (simp add: validate_on_submit_def fixture_defs)
  have t: "select_user_by_username ?w (ff_username (friends_data ?req)) = Some bob"
    by (simp add: select_user_by_username_def fixture_defs)
  have ids: "user_id alice = 1" "user_id bob = 2" by (simp_all add: fixture_defs)
  show ?thesis
    using e i r s m v t ids
      friend_add_cases_and_invariant [where w = ?w and sid = 1 and me = alice and req = ?req
        and cfg = example_cfg and ?w0.0 = demo_world and ?w1.0 = "fst (friends example_cfg ?w ?req)"]
    by simp
qed

subsection \<open>Friend list and stream\<close>

lemma select_user_by_id_member:
  "u \<in> set (Users w) \<Longrightarrow> \<exists>me. select_user_by_id w (user_id u) = Some me \<and> user_id me = user_id u"
proof -
  assume "u \<in> set (Users w)"
  then have "List.find (\<lambda>x. user_id x = user_id u) (Users w) \<noteq> None"
    by (auto simp add: find_None_iff)
  then obtain me where "select_user_by_id w (user_id u) = Some me"
    by (auto simp add: select_user_by_id_def)
  then show ?thesis using select_user_by_id_Some by blast
qed

lemma select_friends_iff:
  "(e, u) \<in> set (select_friends w uid) \<longleftrightarrow>
     e \<in> set (Friends w) \<and> u \<in> set (Users w) \<and> snd e = user_id u \<and> fst e = uid \<and> snd e \<noteq> uid"
  by (auto simp add: select_friends_def)

lemma get_posts_iff:
  "(p, u, cc) \<in> set (get_posts w uid) \<longleftrightarrow>
     p \<in> set (Posts w) \<and> u \<in> set (Users w) \<and> user_id u = post_u_id p
     \<and> ((post_u_id p, uid) \<in> set (Friends w) \<or> (uid, post_u_id p) \<in> set (Friends w)
         \<or> post_u_id p = uid)
     \<and> cc = length (filter (\<lambda>c. p_id c = post_id p) (Comments w))"
  by (force simp add: get_posts_def visible_to_def)

lemma add_friend_frame:
  "Users (add_friend w u friend) = Users w \<and> Posts (add_friend w u friend) = Posts w
   \<and> Comments (add_friend w u friend) = Comments w"
  by (simp add: add_friend_def Let_def flash_def insert_friend_def split: option.split)

lemma friends_frame:
  "Users (fst (friends cfg w req)) = Users w \<and> Posts (fst (friends cfg w req)) = Posts w
   \<and> Comments (fst (friends cfg w req)) = Comments w"
  using add_friend_frame
  by (simp add: friends_def login_required_def friends_view_def Let_def flash_def
      render_template_frame split: option.split)

text \<open>What the friends page and the stream page show when no form is submitted.\<close>

lemma friends_read:
  assumes "s_user_id (session w) = Some sid" and "select_user_by_id w sid = Some me"
      and "\<not> validate_on_submit (meth req) (ff_valid (friends_data req))"
      and "\<not> (mismatch w req \<and> meth req = GET)"
  shows "friends cfg w req =
           render_template cfg w
             (FriendsPage (effective_username w req) (select_friends w (user_id me))
                (friends_data req))"
  using assms by (auto simp add: friends_def login_required_authenticated friends_view_def Let_def)

lemma stream_read:
  assumes "s_user_id (session w) = Some sid" and "select_user_by_id w sid = Some me"
      and "\<not> validate_on_submit (meth req) (pf_valid (post_data req))"
      and "\<not> (mismatch w req \<and> meth req = GET)"
  shows "stream cfg w req =
           render_template cfg w
             (StreamPage (effective_username w req) (post_data req) (get_posts w (user_id me)))"
  using assms by (auto simp add: stream_def login_required_authenticated stream_view_def Let_def)

text \<open>
  C6. A and B are two users and A, signed in, submits the friends form with a username
  that the handler resolves to B. Afterwards the edge from A to B is in the table and
  the friend list that the handler renders for A has the row of B. The friend list of B
  has a row of A only if the edge from B to A is in the table, that is, only if B added A.
  The stream query for B returns every post of A all the same: it takes the posts of the
  users with an edge to or from the current user, the friend list only the edges from
  the current user.
\<close>

theorem friend_list_directed_stream_symmetric:
  assumes "A \<in> set (Users w)" and "B \<in> set (Users w)" and "user_id A \<noteq> user_id B"
      and "s_user_id (session w) = Some (user_id A)"
      and "validate_on_submit (meth req) (ff_valid (friends_data req))"
      and "select_user_by_username w (ff_username (friends_data req)) = Some B"
  shows "(user_id A, user_id B) \<in> set (Friends (fst (friends cfg w req)))
       \<and> snd (friends cfg w req) =
           Render (FriendsPage (effective_username w req)
                     (select_friends (fst (friends cfg w req)) (user_id A)) (friends_data req))
       \<and> ((user_id A, user_id B), B) \<in> set (select_friends (fst (friends cfg w req)) (user_id A))
       \<and> ((\<exists>e u. (e, u) \<in> set (select_friends (fst (friends cfg w req)) (user_id B))
                  \<and> user_id u = user_id A)
            \<longleftrightarrow> (user_id B, user_id A) \<in> set (Friends w))
       \<and> (\<forall>p \<in> set (Posts (fst (friends cfg w req))). post_u_id p = user_id A \<longrightarrow>
            (\<exists>cc. (p, A, cc) \<in> set (get_posts (fst (friends cfg w req)) (user_id B))))"
proof -
  obtain me where me: "select_user_by_id w (user_id A) = Some me" "user_id me = user_id A"
    using select_user_by_id_member [OF assms(1)] by blast
  define w' where "w' = add_friend w me (Some B)"
  have res: "friends cfg w req =
      render_template cfg w'
        (FriendsPage (effective_username w req) (select_friends w' (user_id A)) (friends_data req))"
    using friends_submission [OF assms(4) me(1) assms(5), of cfg] assms(6) me(2)
    by (simp add: w'_def)
  have edges: "set (Friends w') = insert (user_id A, user_id B) (set (Friends w))"
    using assms(3) me(2) by (auto simp add: w'_def add_friend_Friends)
  have frame: "Users w' = Users w" "Posts w' = Posts w"
    by (simp_all add: w'_def add_friend_frame)
  have a: "(user_id A, user_id B) \<in> set (Friends w')" using edges by simp
  have b: "((user_id A, user_id B), B) \<in> set (select_friends w' (user_id A))"
    using a assms(2,3) by (simp add: select_friends_iff frame)
  have c: "(\<exists>e u. (e, u) \<in> set (select_friends w' (user_id B)) \<and> user_id u = user_id A)
            \<longleftrightarrow> (user_id B, user_id A) \<in> set (Friends w)"
  proof
    assume "\<exists>e u. (e, u) \<in> set (select_friends w' (user_id B)) \<and> user_id u = user_id A"
    then obtain e u where "e \<in> set (Friends w')" "fst e = user_id B" "snd e = user_id A"
      by (auto simp add: select_friends_iff)
    then have "(user_id B, user_id A) \<in> set (Friends w')" by (metis prod.collapse)
    then show "(user_id B, user_id A) \<in> set (Friends w)" using edges assms(3) by auto
  next
    assume "(user_id B, user_id A) \<in> set (Friends w)"
    then have "((user_id B, user_id A), A) \<in> set (select_friends w' (user_id B))"
      using edges assms(1,3) by (simp add: select_friends_iff frame)
    then show "\<exists>e u. (e, u) \<in> set (select_friends w' (user_id B)) \<and> user_id u = user_id A"
      by blast
  qed
  have d: "\<exists>cc. (p, A, cc) \<in> set (get_posts w' (user_id B))"
    if "p \<in> set (Posts w')" and "post_u_id p = user_id A" for p
    using that a assms(1) by (simp add: get_posts_iff frame)
  show ?thesis
    using a b c d by (simp add: res render_template_frame render_template_queries)
qed

theorem friend_list_directed_stream_symmetric_witness:
  "(1, 2) \<in> set (Friends (fst (friends example_cfg (demo_world\<lparr>session := session_of alice\<rparr>)
                                 (friend_request ''alice'' ''bob''))))
   \<and> ((2, 1), alice) \<notin> set (select_friends
                               (fst (friends example_cfg (demo_world\<lparr>session := session_of alice\<rparr>)
                                       (friend_request ''alice'' ''bob''))) 2)
   \<and> (hello_post, alice, 0) \<in> set (get_posts
                                      (fst (friends example_cfg (demo_world\<lparr>session := session_of alice\<rparr>)
                                              (friend_request ''alice'' ''bob''))) 2)"
proof -
  let ?w = "demo_world\<lparr>session := session_of alice\<rparr>"
  let ?req = "friend_request ''alice'' ''bob''"
  let ?w' = "fst (friends example_cfg ?w ?req)"
  have ids: "user_id alice = 1" "user_id bob = 2" by (simp_all add: fixture_defs)
  have a: "alice \<in> set (Users ?w)" and b: "bob \<in> set (Users ?w)"
    by (simp_all add: demo_world_def empty_world_def)
  have n: "user_id alice \<noteq> user_id bob" by (simp add: ids)
  have s: "s_user_id (session ?w) = Some (user_id alice)" by (simp add: fixture_defs)
  have v: "validate_on_submit (meth ?req) (ff_valid (friends_data ?req))"
    by (simp add: validate_on_submit_def fixture_defs)
  have t: "select_user_by_username ?w (ff_username (friends_data ?req)) = Some bob"
    by (simp add: select_user_by_username_def fixture_defs)
  have f: "Friends ?w = []" by (simp add: fixture_defs)
  have frame: "Posts ?w' = [hello_post]" "Comments ?w' = []"
    using friends_frame [of example_cfg ?w ?req] by (simp_all add: demo_world_def empty_world_def)
  have author: "post_u_id hello_post = 1" by (simp add: hello_post_def)
  note main = friend_list_directed_stream_symmetric [OF a b n s v t]
  have 1: "(1, 2) \<in> set (Friends ?w')" using main ids by simp
  have 2: "((2, 1), alice) \<notin> set (select_friends ?w' 2)"
  proof
    assume "((2, 1), alice) \<in> set (select_friends ?w' 2)"
    then have "\<exists>e u. (e, u) \<in> set (select_friends ?w' (user_id bob)) \<and> user_id u = user_id alice"
      using ids by auto
    then have "(user_id bob, user_id alice) \<in> set (Friends ?w)" using main by blast
    then show False using f by simp
  qed
  have "\<exists>cc. (hello_post, alice, cc) \<in> set (get_posts ?w' 2)"
    using main frame(1) author ids by simp
  then have 3: "(hello_post, alice, 0) \<in> set (get_posts ?w' 2)"
    using frame(2) by (auto simp add: get_posts_iff)
  show ?thesis using 1 2 3 by simp
qed

subsection \<open>The username of the URL and the username of the session\<close>

lemma mismatch_session:
  "s_username (session w) = Some su \<Longrightarrow> mismatch w req \<longleftrightarrow> url_username req \<noteq> su"
  by (auto simp add: mismatch_def)

text \<open>What each gated handler does with a \<open>POST\<close> of a signed-in user whose row exists.\<close>

lemma stream_post_read:
  assumes "s_user_id (session w) = Some sid" and "s_username (session w) = Some su"
      and "select_user_by_id w sid = Some me" and "meth req = POST"
      and "\<not> pf_valid (post_data req)"
  shows "stream cfg w req =
           render_template cfg w (StreamPage (Some su) (post_data req) (get_posts w sid))"
  using assms select_user_by_id_Some [OF assms(3)]
  by (simp add: stream_def login_required_authenticated stream_view_def Let_def
      effective_username_session validate_on_submit_def)

lemma stream_post_no_file:
  assumes "s_user_id (session w) = Some sid" and "s_username (session w) = Some su"
      and "select_user_by_id w sid = Some me" and "meth req = POST"
      and "pf_valid (post_data req)"
      and "pf_image (post_data req) = None \<or> (\<exists>data. pf_image (post_data req) = Some ([], data))"
  shows "stream cfg w req =
           (w\<lparr>Posts := Posts w @
                [\<lparr>post_id = next_id (map post_id (Posts w)), post_u_id = sid,
                  content = pf_content (post_data req), image = None,
                  post_creation_time = now req\<rparr>]\<rparr>,
            Redirect (UStream su))"
  using assms select_user_by_id_Some [OF assms(3)]
  by (auto simp add: stream_def login_required_authenticated stream_view_def Let_def
      effective_username_session validate_on_submit_def stream_insert_def insert_post_def
      redirect_user)

lemma stream_post_file:
  assumes "s_user_id (session w) = Some sid" and "s_username (session w) = Some su"
      and "select_user_by_id w sid = Some me" and "meth req = POST"
      and "pf_valid (post_data req)"
      and "pf_image (post_data req) = Some (fname, data)" and "fname \<noteq> []"
      and "upload_ext cfg (secure_filename cfg fname) \<in> allowed cfg"
  shows "stream cfg w req =
           (w\<lparr>uploads_dir := (uploads_dir w)(token_hex req @ ''_'' @ secure_filename cfg fname \<mapsto> data),
              Posts := Posts w @
                [\<lparr>post_id = next_id (map post_id (Posts w)), post_u_id = sid,
                  content = pf_content (post_data req),
                  image = Some (token_hex req @ ''_'' @ secure_filename cfg fname),
                  post_creation_time = now req\<rparr>]\<rparr>,
            Redirect (UStream su))"
  using assms select_user_by_id_Some [OF assms(3)]
  by (simp add: stream_def login_required_authenticated stream_view_def Let_def
      effective_username_session validate_on_submit_def stream_insert_def insert_post_def
      save_file_def redirect_user)

lemma comments_post_read:
  assumes "s_user_id (session w) = Some sid" and "s_username (session w) = Some su"
      and "meth req = POST" and "\<not> cf_valid (comments_data req)"
  shows "comments cfg w req =
           render_template cfg w
             (CommentsPage (Some su) (comments_data req)
                (select_post w (url_post_id req)) (select_comments w (url_post_id req)))"
  using assms
  by (simp add: comments_def login_required_authenticated comments_view_def Let_def
      effective_username_session validate_on_submit_def comments_render_def)

lemma comments_post_valid:
  assumes "s_user_id (session w) = Some sid" and "s_username (session w) = Some su"
      and "select_user_by_id w sid = Some me" and "meth req = POST"
      and "cf_valid (comments_data req)"
  shows "comments cfg w req =
           (let w' = w\<lparr>Comments := Comments w @
                        [\<lparr>comment_id = next_id (map comment_id (Comments w)),
                          p_id = url_post_id req, comment_u_id = sid,
                          comment_text = cf_comment (comments_data req),
                          comment_creation_time = now req\<rparr>]\<rparr>
            in render_template cfg w'
                 (CommentsPage (Some su) (comments_data req)
                    (select_post w' (url_post_id req))
                    (select_comments w' (url_post_id req))))"
  using assms select_user_by_id_Some [OF assms(3)]
  by (simp add: comments_def login_required_authenticated comments_view_def Let_def
      effective_username_session validate_on_submit_def comments_render_def insert_comment_def)

lemma friends_post_read:
  assumes "s_user_id (session w) = Some sid" and "s_username (session w) = Some su"
      and "select_user_by_id w sid = Some me" and "meth req = POST"
      and "\<not> ff_valid (friends_data req)"
  shows "friends cfg w req =
           render_template cfg w (FriendsPage (Some su) (select_friends w sid) (friends_data req))"
  using assms select_user_by_id_Some [OF assms(3)]
  by (simp add: friends_def login_required_authenticated friends_view_def Let_def
      effective_username_session validate_on_submit_def)

lemma friends_post_valid:
  assumes "s_user_id (session w) = Some sid" and "s_username (session w) = Some su"
      and "select_user_by_id w sid = Some me" and "meth req = POST"
      and "ff_valid (friends_data req)"
  shows "Friends (fst (friends cfg w req)) =
           (case select_user_by_username w (ff_username (friends_data req)) of
              None \<Rightarrow> Friends w
            | Some target \<Rightarrow>
                if user_id target = sid \<or> (sid, user_id target) \<in> set (Friends w) then Friends w
                else Friends w @ [(sid, user_id target)])
         \<and> snd (friends cfg w req) =
             Render (FriendsPage (Some su) (select_friends (fst (friends cfg w req)) sid)
                       (friends_data req))"
proof -
  have v: "validate_on_submit (meth req) (ff_valid (friends_data req))"
    using assms(4,5) by (simp add: validate_on_submit_def)
  have i: "user_id me = sid" using select_user_by_id_Some [OF assms(3)] by simp
  show ?thesis
    using friends_submission [OF assms(1,3) v, of cfg] i
      effective_username_session [OF assms(2), of req]
    by (simp add: add_friend_Friends render_template_frame render_template_queries
        split: option.split)
qed

lemma profile_post_read:
  assumes "s_user_id (session w) = Some sid" and "s_username (session w) = Some su"
      and "select_user_by_id w sid = Some me" and "meth req = POST"
      and "\<not> prf_valid (profile_data req)"
  shows "profile cfg w req =
           render_template cfg w (ProfilePage (Some su) (Some me) (profile_data req))"
  using assms
  by (simp add: profile_def login_required_authenticated profile_view_def Let_def
      effective_username_session validate_on_submit_def)

lemma profile_post_valid:
  assumes "s_user_id (session w) = Some sid" and "s_username (session w) = Some su"
      and "meth req = POST" and "prf_valid (profile_data req)"
  shows "profile cfg w req =
           (w\<lparr>Users := map (\<lambda>u. if user_id u = sid
                 then u\<lparr>education := Some (prf_education (profile_data req)),
                        employment := Some (prf_employment (profile_data req)),
                        music := Some (prf_music (profile_data req)),
                        movie := Some (prf_movie (profile_data req)),
                        nationality := Some (prf_nationality (profile_data req)),
                        birthday := Some (prf_birthday (profile_data req))\<rparr>
                 else u) (Users w)\<rparr>,
            Redirect (UProfile su))"
  using assms
  by (simp add: profile_def login_required_authenticated profile_view_def Let_def
      effective_username_session validate_on_submit_def update_profile_def redirect_user)

lemma stream_no_error:
  assumes "s_user_id (session w) = Some sid" and "s_username (session w) = Some su"
      and "select_user_by_id w sid = Some me" and "meth req = POST"
  shows "snd (stream cfg w req) \<noteq> ServerError e"
  using assms
  by (auto simp add: stream_def login_required_authenticated stream_view_def Let_def
      stream_insert_def effective_username_session redirect_user render_template_frame
      split: option.splits)

lemma comments_no_error:
  assumes "s_user_id (session w) = Some sid" and "s_username (session w) = Some su"
      and "select_user_by_id w sid = Some me" and "meth req = POST"
  shows "snd (comments cfg w req) \<noteq> ServerError e"
  using assms
  by (simp add: comments_def login_required_authenticated comments_view_def Let_def
      comments_render_def render_template_frame)

lemma friends_no_error:
  assumes "s_user_id (session w) = Some sid" and "s_username (session w) = Some su"
      and "select_user_by_id w sid = Some me" and "meth req = POST"
  shows "snd (friends cfg w req) \<noteq> ServerError e"
  using assms
  by (simp add: friends_def login_required_authenticated friends_view_def Let_def
      render_template_frame)

lemma profile_no_error:
  assumes "s_user_id (session w) = Some sid" and "s_username (session w) = Some su"
      and "select_user_by_id w sid = Some me" and "meth req = POST"
  shows "snd (profile cfg w req) \<noteq> ServerError e"
  using assms
  by (simp add: profile_def login_required_authenticated profile_view_def Let_def
      effective_username_session redirect_user render_template_frame)

lemma stream_post_canonical:
  assumes "s_user_id (session w) = Some sid" and "s_username (session w) = Some su"
      and "meth req = POST"
  shows "stream cfg w req = stream cfg w (req\<lparr>url_username := su\<rparr>)"
  using assms
  by (simp add: stream_def login_required_authenticated stream_view_def Let_def
      effective_username_session stream_insert_def split: option.split prod.split)

lemma comments_post_canonical:
  assumes "s_user_id (session w) = Some sid" and "s_username (session w) = Some su"
      and "meth req = POST"
  shows "comments cfg w req = comments cfg w (req\<lparr>url_username := su\<rparr>)"
  using assms
  by (simp add: comments_def login_required_authenticated comments_view_def Let_def
      effective_username_session comments_render_def split: option.split)

lemma friends_post_canonical:
  assumes "s_user_id (session w) = Some sid" and "s_username (session w) = Some su"
      and "meth req = POST"
  shows "friends cfg w req = friends cfg w (req\<lparr>url_username := su\<rparr>)"
  using assms
  by (simp add: friends_def login_required_authenticated friends_view_def Let_def
      effective_username_session split: option.split)

lemma profile_post_canonical:
  assumes "s_user_id (session w) = Some sid" and "s_username (session w) = Some su"
      and "meth req = POST"
  shows "profile cfg w req = profile cfg w (req\<lparr>url_username := su\<rparr>)"
  using assms
  by (simp add: profile_def login_required_authenticated profile_view_def Let_def
      effective_username_session)

text \<open>
  C7. A request of a signed-in user to stream, comments, friends or profile whose URL
  names another user than the session.

  A \<open>GET\<close> is answered by a redirect to the same route with the username of the session
  (and the same post id), and changes nothing.

  A \<open>POST\<close> is handled exactly as the same request sent to the URL of the session's
  user. With the row of the session's user in the table, it acts as that user and raises
  nothing: a valid post is inserted with the id of the session as its author (and its
  file, when the extension is allowed, saved under the token and the sanitized name), a
  valid comment is inserted with the id of the session as its author, a valid friends
  form adds at most the edge from the id of the session to the target, a valid profile
  form updates the rows with the id of the session and no other; the redirects go to the
  routes of the session's username, and the pages are rendered with the session's
  username and with the posts, the friends and the row of the session's id.
\<close>

theorem url_username_canonicalized:
  assumes "s_user_id (session w) = Some sid" and "s_username (session w) = Some su"
      and "url_username req \<noteq> su"
  shows "(meth req = GET \<longrightarrow>
            stream cfg w req = (w, Redirect (UStream su))
            \<and> comments cfg w req = (w, Redirect (UComments su (url_post_id req)))
            \<and> friends cfg w req = (w, Redirect (UFriends su))
            \<and> profile cfg w req = (w, Redirect (UProfile su)))
       \<and> (meth req = POST \<longrightarrow>
            stream cfg w req = stream cfg w (req\<lparr>url_username := su\<rparr>)
            \<and> comments cfg w req = comments cfg w (req\<lparr>url_username := su\<rparr>)
            \<and> friends cfg w req = friends cfg w (req\<lparr>url_username := su\<rparr>)
            \<and> profile cfg w req = profile cfg w (req\<lparr>url_username := su\<rparr>))
       \<and> (meth req = POST \<and> select_user_by_id w sid = Some me \<longrightarrow>
            (\<forall>e. snd (stream cfg w req) \<noteq> ServerError e \<and> snd (comments cfg w req) \<noteq> ServerError e
                 \<and> snd (friends cfg w req) \<noteq> ServerError e \<and> snd (profile cfg w req) \<noteq> ServerError e)
            \<and> (\<not> pf_valid (post_data req) \<longrightarrow>
                 stream cfg w req =
                   render_template cfg w
                     (StreamPage (Some su) (post_data req) (get_posts w sid)))
            \<and> (pf_valid (post_data req)
                 \<and> (pf_image (post_data req) = None
                     \<or> (\<exists>data. pf_image (post_data req) = Some ([], data))) \<longrightarrow>
                 stream cfg w req =
                   (w\<lparr>Posts := Posts w @
                        [\<lparr>post_id = next_id (map post_id (Posts w)), post_u_id = sid,
                          content = pf_content (post_data req), image = None,
                          post_creation_time = now req\<rparr>]\<rparr>,
                    Redirect (UStream su)))
            \<and> (\<forall>fname data.
                  pf_valid (post_data req) \<and> pf_image (post_data req) = Some (fname, data)
                  \<and> fname \<noteq> [] \<and> upload_ext cfg (secure_filename cfg fname) \<in> allowed cfg \<longrightarrow>
                  stream cfg w req =
                    (w\<lparr>uploads_dir :=
                         (uploads_dir w)(token_hex req @ ''_'' @ secure_filename cfg fname \<mapsto> data),
                       Posts := Posts w @
                         [\<lparr>post_id = next_id (map post_id (Posts w)), post_u_id = sid,
                           content = pf_content (post_data req),
                           image = Some (token_hex req @ ''_'' @ secure_filename cfg fname),
                           post_creation_time = now req\<rparr>]\<rparr>,
                     Redirect (UStream su)))
            \<and> (\<forall>fname data.
                  pf_valid (post_data req) \<and> pf_image (post_data req) = Some (fname, data)
                  \<and> fname \<noteq> [] \<and> upload_ext cfg (secure_filename cfg fname) \<notin> allowed cfg \<longrightarrow>
                  stream cfg w req =
                    (w\<lparr>flashed := flashed w @ [(''File type not allowed'', ''warning'')],
                       session := (session w)\<lparr>s_flashes :=
                         Some (session_flashes (session w)
                               @ [(''warning'', ''File type not allowed'')])\<rparr>\<rparr>,
                     Redirect (UStream su)))
            \<and> (\<not> cf_valid (comments_data req) \<longrightarrow>
                 comments cfg w req =
                   render_template cfg w
                     (CommentsPage (Some su) (comments_data req)
                        (select_post w (url_post_id req))
                        (select_comments w (url_post_id req))))
            \<and> (cf_valid (comments_data req) \<longrightarrow>
                 comments cfg w req =
                   (let w' = w\<lparr>Comments := Comments w @
                                [\<lparr>comment_id = next_id (map comment_id (Comments w)),
                                  p_id = url_post_id req, comment_u_id = sid,
                                  comment_text = cf_comment (comments_data req),
                                  comment_creation_time = now req\<rparr>]\<rparr>
                    in render_template cfg w'
                         (CommentsPage (Some su) (comments_data req)
                            (select_post w' (url_post_id req))
                            (select_comments w' (url_post_id req)))))
            \<and> (\<not> ff_valid (friends_data req) \<longrightarrow>
                 friends cfg w req =
                   render_template cfg w
                     (FriendsPage (Some su) (select_friends w sid) (friends_data req)))
            \<and> (ff_valid (friends_data req) \<longrightarrow>
                 Friends (fst (friends cfg w req)) =
                   (case select_user_by_username w (ff_username (friends_data req)) of
                      None \<Rightarrow> Friends w
                    | Some target \<Rightarrow>
                        if user_id target = sid \<or> (sid, user_id target) \<in> set (Friends w)
                        then Friends w
                        else Friends w @ [(sid, user_id target)])
                 \<and> Users (fst (friends cfg w req)) = Users w
                 \<and> Posts (fst (friends cfg w req)) = Posts w
                 \<and> Comments (fst (friends cfg w req)) = Comments w
                 \<and> snd (friends cfg w req) =
                     Render (FriendsPage (Some su) (select_friends (fst (friends cfg w req)) sid)
                               (friends_data req)))
            \<and> (\<not> prf_valid (profile_data req) \<longrightarrow>
                 profile cfg w req =
                   render_template cfg w (ProfilePage (Some su) (Some me) (profile_data req)))
            \<and> (prf_valid (profile_data req) \<longrightarrow>
                 profile cfg w req =
                   (w\<lparr>Users := map (\<lambda>u. if user_id u = sid
                         then u\<lparr>education := Some (prf_education (profile_data req)),
                                employment := Some (prf_employment (profile_data req)),
                                music := Some (prf_music (profile_data req)),
                                movie := Some (prf_movie (profile_data req)),
                                nationality := Some (prf_nationality (profile_data req)),
                                birthday := Some (prf_birthday (profile_data req))\<rparr>
                         else u) (Users w)\<rparr>,
                    Redirect (UProfile su))))"
proof -
  have m: "mismatch w req" using assms(2,3) by (simp add: mismatch_session)
  have get: "stream cfg w req = (w, Redirect (UStream su))
            \<and> comments cfg w req = (w, Redirect (UComments su (url_post_id req)))
            \<and> friends cfg w req = (w, Redirect (UFriends su))
            \<and> profile cfg w req = (w, Redirect (UProfile su))" if "meth req = GET"
    using that m assms(1,2)
    by (simp add: stream_def comments_def friends_def profile_def login_required_authenticated
        stream_view_def comments_view_def friends_view_def profile_view_def redirect_user)
  have post: "stream cfg w req = stream cfg w (req\<lparr>url_username := su\<rparr>)
            \<and> comments cfg w req = comments cfg w (req\<lparr>url_username := su\<rparr>)
            \<and> friends cfg w req = friends cfg w (req\<lparr>url_username := su\<rparr>)
            \<and> profile cfg w req = profile cfg w (req\<lparr>url_username := su\<rparr>)" if "meth req = POST"
    using stream_post_canonical [OF assms(1,2) that] comments_post_canonical [OF assms(1,2) that]
      friends_post_canonical [OF assms(1,2) that] profile_post_canonical [OF assms(1,2) that]
    by simp
  have acts: "(\<forall>e. snd (stream cfg w req) \<noteq> ServerError e \<and> snd (comments cfg w req) \<noteq> ServerError e
                 \<and> snd (friends cfg w req) \<noteq> ServerError e \<and> snd (profile cfg w req) \<noteq> ServerError e)
            \<and> (\<not> pf_valid (post_data req) \<longrightarrow>
                 stream cfg w req =
                   render_template cfg w
                     (StreamPage (Some su) (post_data req) (get_posts w sid)))
            \<and> (pf_valid (post_data req)
                 \<and> (pf_image (post_data req) = None
                     \<or> (\<exists>data. pf_image (post_data req) = Some ([], data))) \<longrightarrow>
                 stream cfg w req =
                   (w\<lparr>Posts := Posts w @
                        [\<lparr>post_id = next_id (map post_id (Posts w)), post_u_id = sid,
                          content = pf_content (post_data req), image = None,
                          post_creation_time = now req\<rparr>]\<rparr>,
                    Redirect (UStream su)))
            \<and> (\<forall>fname data.
                  pf_valid (post_data req) \<and> pf_image (post_data req) = Some (fname, data)
                  \<and> fname \<noteq> [] \<and> upload_ext cfg (secure_filename cfg fname) \<in> allowed cfg \<longrightarrow>
                  stream cfg w req =
                    (w\<lparr>uploads_dir :=
                         (uploads_dir w)(token_hex req @ ''_'' @ secure_filename cfg fname \<mapsto> data),
                       Posts := Posts w @
                         [\<lparr>post_id = next_id (map post_id (Posts w)), post_u_id = sid,
                           content = pf_content (post_data req),
                           image = Some (token_hex req @ ''_'' @ secure_filename cfg fname),
                           post_creation_time = now req\<rparr>]\<rparr>,
                     Redirect (UStream su)))
            \<and> (\<forall>fname data.
                  pf_valid (post_data req) \<and> pf_image (post_data req) = Some (fname, data)
                  \<and> fname \<noteq> [] \<and> upload_ext cfg (secure_filename cfg fname) \<notin> allowed cfg \<longrightarrow>
                  stream cfg w req =
                    (w\<lparr>flashed := flashed w @ [(''File type not allowed'', ''warning'')],
                       session := (session w)\<lparr>s_flashes :=
                         Some (session_flashes (session w)
                               @ [(''warning'', ''File type not allowed'')])\<rparr>\<rparr>,
                     Redirect (UStream su)))
            \<and> (\<not> cf_valid (comments_data req) \<longrightarrow>
                 comments cfg w req =
                   render_template cfg w
                     (CommentsPage (Some su) (comments_data req)
                        (select_post w (url_post_id req))
                        (select_comments w (url_post_id req))))
            \<and> (cf_valid (comments_data req) \<longrightarrow>
                 comments cfg w req =
                   (let w' = w\<lparr>Comments := Comments w @
                                [\<lparr>comment_id = next_id (map comment_id (Comments w)),
                                  p_id = url_post_id req, comment_u_id = sid,
                                  comment_text = cf_comment (comments_data req),
                                  comment_creation_time = now req\<rparr>]\<rparr>
                    in render_template cfg w'
                         (CommentsPage (Some su) (comments_data req)
                            (select_post w' (url_post_id req))
                            (select_comments w' (url_post_id req)))))
            \<and> (\<not> ff_valid (friends_data req) \<longrightarrow>
                 friends cfg w req =
                   render_template cfg w
                     (FriendsPage (Some su) (select_friends w sid) (friends_data req)))
            \<and> (ff_valid (friends_data req) \<longrightarrow>
                 Friends (fst (friends cfg w req)) =
                   (case select_user_by_username w (ff_username (friends_data req)) of
                      None \<Rightarrow> Friends w
                    | Some target \<Rightarrow>
                        if user_id target = sid \<or> (sid, user_id target) \<in> set (Friends w)
                        then Friends w
                        else Friends w @ [(sid, user_id target)])
                 \<and> Users (fst (friends cfg w req)) = Users w
                 \<and> Posts (fst (friends cfg w req)) = Posts w
                 \<and> Comments (fst (friends cfg w req)) = Comments w
                 \<and> snd (friends cfg w req) =
                     Render (FriendsPage (Some su) (select_friends (fst (friends cfg w req)) sid)
                               (friends_data req)))
            \<and> (\<not> prf_valid (profile_data req) \<longrightarrow>
                 profile cfg w req =
                   render_template cfg w (ProfilePage (Some su) (Some me) (profile_data req)))
            \<and> (prf_valid (profile_data req) \<longrightarrow>
                 profile cfg w req =
                   (w\<lparr>Users := map (\<lambda>u. if user_id u = sid
                         then u\<lparr>education := Some (prf_education (profile_data req)),
                                employment := Some (prf_employment (profile_data req)),
                                music := Some (prf_music (profile_data req)),
                                movie := Some (prf_movie (profile_data req)),
                                nationality := Some (prf_nationality (profile_data req)),
                                birthday := Some (prf_birthday (profile_data req))\<rparr>
                         else u) (Users w)\<rparr>,
                    Redirect (UProfile su)))"
    if p: "meth req = POST" and me: "select_user_by_id w sid = Some me"
  proof -
    note a = assms(1,2)
    have noerr: "\<forall>e. snd (stream cfg w req) \<noteq> ServerError e \<and> snd (comments cfg w req) \<noteq> ServerError e
                 \<and> snd (friends cfg w req) \<noteq> ServerError e \<and> snd (profile cfg w req) \<noteq> ServerError e"
      using stream_no_error [OF a me p] comments_no_error [OF a me p]
        friends_no_error [OF a me p] profile_no_error [OF a me p]
      by simp
    have rejected: "stream cfg w req =
                    (w\<lparr>flashed := flashed w @ [(''File type not allowed'', ''warning'')],
                       session := (session w)\<lparr>s_flashes :=
                         Some (session_flashes (session w)
                               @ [(''warning'', ''File type not allowed'')])\<rparr>\<rparr>,
                     Redirect (UStream su))"
      if "pf_valid (post_data req)" and "pf_image (post_data req) = Some (fname, data)"
        and "fname \<noteq> []" and "upload_ext cfg (secure_filename cfg fname) \<notin> allowed cfg"
      for fname data
    proof -
      have v: "validate_on_submit (meth req) (pf_valid (post_data req))"
        using p that(1) by (simp add: validate_on_submit_def)
      show ?thesis
        using stream_rejects_file [OF v that(2,3,4) assms(1)]
          effective_username_session [OF assms(2), of req]
        by (simp add: flash_def redirect_user)
    qed
    note s1 = stream_post_read [OF a me p]
    note s2 = stream_post_no_file [OF a me p]
    note s3 = stream_post_file [OF a me p]
    note c1 = comments_post_read [OF a p]
    note c2 = comments_post_valid [OF a me p]
    note f1 = friends_post_read [OF a me p]
    note f2 = friends_post_valid [OF a me p]
    note f3 = friends_frame [of cfg w req]
    note p1 = profile_post_read [OF a me p]
    note p2 = profile_post_valid [OF a p]
    show ?thesis
      apply (rule conjI, rule noerr)
      apply (rule conjI, rule impI, erule s1)
      apply (rule conjI, rule impI, erule conjE, erule (1) s2)
      apply (rule conjI, intro allI impI, elim conjE, erule (3) s3)
      apply (rule conjI, intro allI impI, elim conjE, erule (3) rejected)
      apply (rule conjI, rule impI, erule c1)
      apply (rule conjI, rule impI, erule c2)
      apply (rule conjI, rule impI, erule f1)
      apply (rule conjI, rule impI)
       apply (insert f2 f3, simp) [1]
      apply (rule conjI, rule impI, erule p1)
      apply (rule impI, erule p2)
      done
  qed
  show ?thesis
    apply (rule conjI, rule impI, erule get)
    apply (rule conjI, rule impI, erule post)
    apply (rule impI, erule conjE, erule (1) acts)
    done
qed

theorem url_username_canonicalized_witness:
  "stream example_cfg (demo_world\<lparr>session := session_of alice\<rparr>)
     (blank_request\<lparr>url_username := ''bob''\<rparr>) =
     (demo_world\<lparr>session := session_of alice\<rparr>, Redirect (UStream ''alice''))
   \<and> friends example_cfg (demo_world\<lparr>session := session_of alice\<rparr>) (friend_request ''bob'' ''bob'') =
     friends example_cfg (demo_world\<lparr>session := session_of alice\<rparr>) (friend_request ''alice'' ''bob'')
   \<and> stream example_cfg (demo_world\<lparr>session := session_of alice\<rparr>)
       (post_request ''bob'' ''look'' None) =
     (demo_world\<lparr>session := session_of alice,
        Posts := [hello_post,
                  \<lparr>post_id = 2, post_u_id = 1, content = ''look'', image = None,
                   post_creation_time = 10\<rparr>]\<rparr>,
      Redirect (UStream ''alice''))"
proof -
  let ?w = "demo_world\<lparr>session := session_of alice\<rparr>"
  have s: "s_user_id (session ?w) = Some 1" and u: "s_username (session ?w) = Some ''alice''"
    by (simp_all add: fixture_defs)
  have g: "url_username (blank_request\<lparr>url_username := ''bob''\<rparr>) \<noteq> ''alice''"
    "meth (blank_request\<lparr>url_username := ''bob''\<rparr>) = GET"
    by (simp_all add: fixture_defs)
  have p: "url_username (friend_request ''bob'' ''bob'') \<noteq> ''alice''"
    "meth (friend_request ''bob'' ''bob'') = POST"
    "(friend_request ''bob'' ''bob'')\<lparr>url_username := ''alice''\<rparr> = friend_request ''alice'' ''bob''"
    by (simp_all add: fixture_defs)
  have c: "url_username (post_request ''bob'' ''look'' None) \<noteq> ''alice''"
    "meth (post_request ''bob'' ''look'' None) = POST"
    "pf_valid (post_data (post_request ''bob'' ''look'' None))"
    "pf_image (post_data (post_request ''bob'' ''look'' None)) = None"
    "pf_content (post_data (post_request ''bob'' ''look'' None)) = ''look''"
    "now (post_request ''bob'' ''look'' None) = 10"
    by (simp_all add: fixture_defs)
  have r: "select_user_by_id ?w 1 = Some alice" by (simp add: select_user_by_id_def fixture_defs)
  have posts: "Posts ?w = [hello_post]" "next_id (map post_id (Posts ?w)) = 2"
    by (simp_all add: next_id_def fixture_defs)
  have 1: "stream example_cfg ?w (blank_request\<lparr>url_username := ''bob''\<rparr>) =
             (?w, Redirect (UStream ''alice''))"
    using url_username_canonicalized [OF s u g(1), of example_cfg, THEN conjunct1] g(2) by simp
  have 2: "friends example_cfg ?w (friend_request ''bob'' ''bob'') =
             friends example_cfg ?w ((friend_request ''bob'' ''bob'')\<lparr>url_username := ''alice''\<rparr>)"
    using url_username_canonicalized [OF s u p(1), of example_cfg, THEN conjunct2, THEN conjunct1]
      p(2) by simp
  have "stream example_cfg ?w (post_request ''bob'' ''look'' None) =
          (?w\<lparr>Posts := Posts ?w @
               [\<lparr>post_id = next_id (map post_id (Posts ?w)), post_u_id = 1,
                 content = pf_content (post_data (post_request ''bob'' ''look'' None)),
                 image = None, post_creation_time = now (post_request ''bob'' ''look'' None)\<rparr>]\<rparr>,
           Redirect (UStream ''alice''))"
    using url_username_canonicalized [OF s u c(1), of example_cfg alice, THEN conjunct2,
        THEN conjunct2, rule_format, OF conjI, OF c(2) r, THEN conjunct2, THEN conjunct2,
        THEN conjunct1] c(3,4)
    by simp
  then have 3: "stream example_cfg ?w (post_request ''bob'' ''look'' None) =
     (demo_world\<lparr>session := session_of alice,
        Posts := [hello_post,
                  \<lparr>post_id = 2, post_u_id = 1, content = ''look'', image = None,
                   post_creation_time = 10\<rparr>]\<rparr>,
      Redirect (UStream ''alice''))"
    using posts c(5,6) by simp
  show ?thesis using 1 2 3 p(3) by simp
qed

subsection \<open>Comments on a post that does not exist\<close>

lemma select_post_None:
  assumes "\<forall>p \<in> set (Posts w). post_id p \<noteq> pid"
  shows "select_post w pid = None"
proof -
  have "set [(p, u). p \<leftarrow> Posts w, u \<leftarrow> Users w, post_u_id p = user_id u \<and> post_id p = pid] = {}"
    using assms by auto
  then have "[(p, u). p \<leftarrow> Posts w, u \<leftarrow> Users w, post_u_id p = user_id u \<and> post_id p = pid] = []"
    by (simp only: set_empty)
  then show ?thesis unfolding select_post_def by (simp only: list.case)
qed

lemma comments_submission:
  assumes "s_user_id (session w) = Some sid" and "select_user_by_id w sid = Some me"
      and "validate_on_submit (meth req) (cf_valid (comments_data req))"
  shows "comments cfg w req =
           comments_render cfg
             (insert_comment w (url_post_id req) (user_id me) (cf_comment (comments_data req))
                (now req))
             req (effective_username w req)"
proof -
  have "meth req = POST" using assms(3) by (simp add: validate_on_submit_def)
  then show ?thesis
    using assms by (simp add: comments_def login_required_authenticated comments_view_def Let_def)
qed

text \<open>
  C8. A comments form submitted by a signed-in user appends a row to \<open>Comments\<close> with
  the post id of the URL, the id of the user, the submitted text and the time of the
  request, whether or not a post with that id exists. When no post has that id the
  handler raises nothing: it renders the comments page with \<open>None\<close> for the post, and
  with the comments of that post id, the new one among them.
\<close>

theorem comment_on_any_post_id:
  assumes "s_user_id (session w) = Some sid" and "select_user_by_id w sid = Some me"
      and "validate_on_submit (meth req) (cf_valid (comments_data req))"
  shows "Comments (fst (comments cfg w req)) =
           Comments w @
             [\<lparr>comment_id = next_id (map comment_id (Comments w)), p_id = url_post_id req,
               comment_u_id = user_id me, comment_text = cf_comment (comments_data req),
               comment_creation_time = now req\<rparr>]
       \<and> ((\<forall>p \<in> set (Posts w). post_id p \<noteq> url_post_id req) \<longrightarrow>
            snd (comments cfg w req) =
              Render (CommentsPage (effective_username w req) (comments_data req) None
                        (select_comments (fst (comments cfg w req)) (url_post_id req)))
            \<and> (\<lparr>comment_id = next_id (map comment_id (Comments w)), p_id = url_post_id req,
                  comment_u_id = user_id me, comment_text = cf_comment (comments_data req),
                  comment_creation_time = now req\<rparr>, me)
                \<in> set (select_comments (fst (comments cfg w req)) (url_post_id req)))"
proof -
  define w' where "w' = insert_comment w (url_post_id req) (user_id me)
                          (cf_comment (comments_data req)) (now req)"
  have res: "comments cfg w req = comments_render cfg w' req (effective_username w req)"
    using comments_submission [OF assms] by (simp add: w'_def)
  have frame: "Posts w' = Posts w" "Users w' = Users w"
    by (simp_all add: w'_def insert_comment_def)
  have rows: "Comments w' = Comments w @
             [\<lparr>comment_id = next_id (map comment_id (Comments w)), p_id = url_post_id req,
               comment_u_id = user_id me, comment_text = cf_comment (comments_data req),
               comment_creation_time = now req\<rparr>]"
    by (simp add: w'_def insert_comment_def)
  have me: "me \<in> set (Users w)" "user_id me = sid"
    using select_user_by_id_Some [OF assms(2)] by simp_all
  have listed: "(\<lparr>comment_id = next_id (map comment_id (Comments w)), p_id = url_post_id req,
                  comment_u_id = user_id me, comment_text = cf_comment (comments_data req),
                  comment_creation_time = now req\<rparr>, me)
                \<in> set (select_comments w' (url_post_id req))"
    using me(1) by (simp add: select_comments_def rows frame)
  have absent: "select_post w' (url_post_id req) = None"
    if "\<forall>p \<in> set (Posts w). post_id p \<noteq> url_post_id req"
    using that select_post_None [of w' "url_post_id req"] by (simp add: frame)
  show ?thesis
    using rows listed absent
    by (simp add: res comments_render_def render_template_frame render_template_queries)
qed

theorem comment_on_any_post_id_witness:
  "Comments (fst (comments example_cfg (demo_world\<lparr>session := session_of alice\<rparr>)
                       (comment_request ''alice'' 99 ''hi''))) =
       [\<lparr>comment_id = 1, p_id = 99, comment_u_id = 1, comment_text = ''hi'',
         comment_creation_time = 10\<rparr>]
   \<and> snd (comments example_cfg (demo_world\<lparr>session := session_of alice\<rparr>)
            (comment_request ''alice'' 99 ''hi'')) =
       Render (CommentsPage (Some ''alice'') (comments_data (comment_request ''alice'' 99 ''hi''))
                 None
                 (select_comments (fst (comments example_cfg (demo_world\<lparr>session := session_of alice\<rparr>)
                                          (comment_request ''alice'' 99 ''hi''))) 99))"
proof -
  let ?w = "demo_world\<lparr>session := session_of alice\<rparr>"
  let ?req = "comment_request ''alice'' 99 ''hi''"
  have s: "s_user_id (session ?w) = Some 1" by (simp add: fixture_defs)
  have m: "select_user_by_id ?w 1 = Some alice"
    by (simp add: select_user_by_id_def fixture_defs)
  have v: "validate_on_submit (meth ?req) (cf_valid (comments_data ?req))"
    by (simp add: validate_on_submit_def fixture_defs)
  have a: "\<forall>p \<in> set (Posts ?w). post_id p \<noteq> 99" by (simp add: fixture_defs)
  have e: "effective_username ?w ?req = Some ''alice''"
    by (simp add: effective_username_def mismatch_def fixture_defs)
  have r: "url_post_id ?req = 99" "now ?req = 10" "cf_comment (comments_data ?req) = ''hi''"
    "user_id alice = 1" "Comments ?w = []"
    by (simp_all add: fixture_defs)
  show ?thesis
    using comment_on_any_post_id [OF s m v] a e r by (simp add: next_id_def)
qed

end
